theory Spec2Isabelle
  imports Main "HOL-Library.AList" "HOL-Library.Char_ord" "HOL-Library.List_Lexorder"
    "HOL-Library.Multiset"
begin

text \<open>
  A model of the NPC dialog mapper: the loaders, the relationship builder, the metadata
  matcher and the dialog tree renderer of \<^verbatim>\<open>npc_dialog_mapper_gui_fixed.pyw\<close> (the fixed
  variant), the JSON loaders and the metadata matcher of \<^verbatim>\<open>npc_dialog_mapper_gui.pyw\<close>
  (the original variant), and the text search of the script that the generated page
  carries. Definitions come first, examples next, the verified properties last.
\<close>

section \<open>The data model\<close>

text \<open>
  The dataclasses of \<^verbatim>\<open>npc_dialog_mapper_gui_fixed.pyw\<close> (and, field for field, of
  \<^verbatim>\<open>npc_dialog_mapper_gui.pyw\<close>). Python's unbounded integers are \<open>int\<close>; a field
  annotated \<^verbatim>\<open>Optional[...]\<close> is an \<open>option\<close>. Field names that occur in two
  dataclasses carry the class as a prefix, since record selectors are global.
  Strings are \<open>string\<close>, read as sequences of the characters with code below 256.
\<close>

record NPCReply =
  reply_id :: int
  reply_text_fr :: string
  reply_text_en :: "string option"
  reply_text_es :: "string option"
  reply_text_pt :: "string option"
  reply_context :: "string option"
  parent_message_id :: int
  leads_to_message_id :: "int option"

record NPCMessage =
  message_id :: int
  text_fr :: string
  text_en :: "string option"
  text_es :: "string option"
  text_pt :: "string option"
  message_context :: "string option"
  replies :: "NPCReply list"

record NPCDialog =
  dialog_id :: int
  dialog_npc_id :: int
  dialog_message_id :: int
  check_order :: int

record NPCMetadata =
  index_id :: int
  gender :: int
  look :: string
  img_url :: string
  metadata_id :: string
  meta_name_en :: string
  meta_name_pt :: string
  meta_name_es :: string
  meta_name_fr :: string
  meta_name_de :: string

record NPC =
  npc_id :: int
  name_fr :: string
  name_en :: "string option"
  name_es :: "string option"
  name_pt :: "string option"
  npc_context :: "string option"
  dialogs :: "NPCDialog list"
  genders :: "int list"
  img_urls :: "string list"

text \<open>
  A Python \<^verbatim>\<open>dict\<close> keeps its keys in insertion order and a store to a key already
  present keeps the key's place. It is an association list with distinct keys, read with
  \<open>map_of\<close> and written with \<open>AList.update\<close>; \<^verbatim>\<open>d.values()\<close> is \<open>map snd d\<close>.
\<close>

type_synonym ('k, 'v) dict = "('k \<times> 'v) list"

section \<open>The dialog tree renderer (fixed variant)\<close>

text \<open>
  The renderer builds one HTML string. Between the interpolated values that string is
  fixed markup, so the model keeps the element structure and every interpolated value and
  leaves the fixed markup to the constructors:
  \<^item> \<open>NullValue\<close> is \<^verbatim>\<open><span class="null-value">NULL ...</span>\<close>, \<open>Shown s\<close> is the text;
  \<^item> \<open>MessageRef i\<close> is \<^verbatim>\<open><div class="message-ref">... Reference to Message ID: i</div>\<close>;
  \<^item> \<open>MessageDiv a rs\<close> is \<^verbatim>\<open><div class="message collapsible depth-V" data-message-id="I" data-depth="D">\<close>
    with its header (depth badge, id), its four language rows and, when \<open>rs\<close> is not
    empty, the \<^verbatim>\<open><div class="replies collapsible-nested">\<close> holding the replies;
  \<^item> \<open>ReplyDiv a n\<close> is \<^verbatim>\<open><div class="reply collapsible-nested depth-V" data-reply-id="I" data-depth="D">\<close>
    with its header (depth badge, id, the arrow to the continuation), its four language
    rows and, when \<open>n\<close> is \<open>Some t\<close>, the \<^verbatim>\<open><div class="nested-messages">\<close> holding \<open>t\<close>.
\<close>

datatype formatted = NullValue | Shown string

record message_attrs =
  message_depth_class :: int
  data_message_id :: int
  message_data_depth :: int
  message_depth_badge :: "int option"
  message_lang_rows :: "formatted list"

record reply_attrs =
  reply_depth_class :: int
  data_reply_id :: int
  reply_data_depth :: int
  reply_depth_badge :: "int option"
  reply_arrow :: "int option"
  reply_lang_rows :: "formatted list"

datatype dialog_html =
    MessageRef int
  | MessageDiv message_attrs "reply_html list"
and reply_html =
    ReplyDiv reply_attrs "dialog_html option"

text \<open>\<^verbatim>\<open>_format_text_with_null_check\<close>: the NULL marker for \<^verbatim>\<open>None\<close> and for the empty
  string, otherwise the text with every newline replaced by \<^verbatim>\<open><br>\<close> and every carriage
  return removed.\<close>

definition format_text_with_null_check :: "string option \<Rightarrow> formatted" where
  "format_text_with_null_check text =
     (case text of
        None \<Rightarrow> NullValue
      | Some t \<Rightarrow>
          if t = [] then NullValue
          else Shown (concat (map (\<lambda>c. if c = CHR 0x0A then ''<br>''
                                          else if c = CHR 0x0D then [] else [c]) t)))"

definition max_level :: int where
  "max_level = 15"

text \<open>What Python's \<^verbatim>\<open>if reply.leads_to_message_id\<close> lets through: the id, unless it
  is \<^verbatim>\<open>None\<close> or \<^verbatim>\<open>0\<close> (both false in Python).\<close>

definition if_truthy :: "int option \<Rightarrow> int option" where
  "if_truthy v = (case v of None \<Rightarrow> None | Some i \<Rightarrow> if i \<noteq> 0 then Some i else None)"

definition message_node_attrs :: "NPCMessage \<Rightarrow> int \<Rightarrow> message_attrs" where
  "message_node_attrs message level =
     \<lparr> message_depth_class = min level max_level,
       data_message_id = message_id message,
       message_data_depth = level,
       message_depth_badge = (if level > max_level then Some level else None),
       message_lang_rows =
         [format_text_with_null_check (Some (text_fr message)),
          format_text_with_null_check (text_en message),
          format_text_with_null_check (text_es message),
          format_text_with_null_check (text_pt message)] \<rparr>"

definition reply_node_attrs :: "NPCReply \<Rightarrow> int \<Rightarrow> reply_attrs" where
  "reply_node_attrs reply level =
     \<lparr> reply_depth_class = min (level + 1) max_level,
       data_reply_id = reply_id reply,
       reply_data_depth = level + 1,
       reply_depth_badge = (if level + 1 > max_level then Some (level + 1) else None),
       reply_arrow = if_truthy (leads_to_message_id reply),
       reply_lang_rows =
         [format_text_with_null_check (Some (reply_text_fr reply)),
          format_text_with_null_check (reply_text_en reply),
          format_text_with_null_check (reply_text_es reply),
          format_text_with_null_check (reply_text_pt reply)] \<rparr>"

text \<open>
  \<^verbatim>\<open>_generate_dialog_tree(message, dialog, level, visited)\<close>, as the tree that the call
  returns when it returns. The set \<open>visited\<close> is a fresh object at every call (a new
  \<^verbatim>\<open>set()\<close> at the entry, \<^verbatim>\<open>visited.copy()\<close> at every recursive call), so the \<^verbatim>\<open>add\<close> and
  the final \<^verbatim>\<open>remove\<close> of a call are seen by no caller and the set is passed as a value.
  The continuation of a reply is rendered when \<^verbatim>\<open>reply.leads_to_message_id\<close> is true
  (neither \<^verbatim>\<open>None\<close> nor \<^verbatim>\<open>0\<close>) and a key of \<^verbatim>\<open>self.messages\<close>. The recursion is
  well-founded: every call adds a message id to the set that was not in it, and only ids
  of stored messages are ever added. The interpreter bounds the depth of the recursion;
  \<open>render_dialog_tree\<close> below is the same call under that bound.
\<close>

function generate_dialog_tree ::
  "(int, NPCMessage) dict \<Rightarrow> NPCMessage \<Rightarrow> NPCDialog \<Rightarrow> int \<Rightarrow> int set \<Rightarrow> dialog_html" where
  "generate_dialog_tree messages message dialog level visited =
     (if message_id message \<in> visited then MessageRef (message_id message)
      else MessageDiv (message_node_attrs message level)
             (map (\<lambda>reply.
                     ReplyDiv (reply_node_attrs reply level)
                       (case if_truthy (leads_to_message_id reply) of
                          None \<Rightarrow> None
                        | Some next_id \<Rightarrow>
                            (case map_of messages next_id of
                               None \<Rightarrow> None
                             | Some next_message \<Rightarrow>
                                 Some (generate_dialog_tree messages next_message dialog
                                         (level + 2) (insert (message_id message) visited)))))
                  (replies message)))"
  by pat_completeness auto
termination
proof (relation "measure (\<lambda>(messages, message, dialog, level, visited).
         card (insert (message_id message) (message_id ` snd ` set messages) - visited))")
  show "wf (measure (\<lambda>(messages, message, dialog, level, visited).
         card (insert (message_id message) (message_id ` snd ` set messages) - visited)))"
    by simp
next
  fix messages :: "(int, NPCMessage) dict" and message :: NPCMessage and dialog :: NPCDialog
    and level :: int and visited :: "int set" and next_id :: int and next_message :: NPCMessage
  assume fresh: "message_id message \<notin> visited"
    and look: "map_of messages next_id = Some next_message"
  let ?ids = "message_id ` snd ` set messages"
  from look have "(next_id, next_message) \<in> set messages"
    by (rule map_of_SomeD)
  then have "message_id next_message \<in> ?ids"
    by force
  then have "insert (message_id next_message) ?ids - insert (message_id message) visited
      \<subseteq> (insert (message_id message) ?ids - visited) - {message_id message}"
    by auto
  moreover have "message_id message \<in> insert (message_id message) ?ids - visited"
    using fresh by simp
  ultimately have "insert (message_id next_message) ?ids - insert (message_id message) visited
      \<subset> insert (message_id message) ?ids - visited"
    by blast
  moreover have "finite (insert (message_id message) ?ids - visited)"
    by simp
  ultimately have "card (insert (message_id next_message) ?ids - insert (message_id message) visited)
      < card (insert (message_id message) ?ids - visited)"
    by (rule psubset_card_mono[rotated])
  then show "((messages, next_message, dialog, level + 2, insert (message_id message) visited),
              (messages, message, dialog, level, visited))
      \<in> measure (\<lambda>(messages, message, dialog, level, visited).
           card (insert (message_id message) (message_id ` snd ` set messages) - visited))"
    by simp
qed




subsection \<open>NPC cards and the document\<close>

text \<open>
  The state of an \<^verbatim>\<open>NPCDialogMapper\<close> object. \<^verbatim>\<open>self.replies\<close> and \<^verbatim>\<open>self.dialogs\<close>
  are \<open>mapper_replies\<close> and \<open>mapper_dialogs\<close> (the names \<open>replies\<close> and \<open>dialogs\<close> are
  fields of a message and of an NPC). A translation entry is the inner dictionary
  \<^verbatim>\<open>{'fr': ..., 'en': ..., ...}\<close>; \<open>xliff_translations\<close> holds the three dictionaries
  \<^verbatim>\<open>'npc_names'\<close>, \<^verbatim>\<open>'messages'\<close> and \<^verbatim>\<open>'replies'\<close>. \<open>reply_relationships\<close> is the
  temporary attribute \<^verbatim>\<open>self._reply_relationships\<close> of the fixed variant, whose values
  are the dictionaries \<^verbatim>\<open>{'parent_message_id', 'leads_to_message_id', 'context'}\<close>.
  \<open>printed\<close> is not an attribute: it collects the warnings and errors the object prints
  about a whole file (a line with an interpolated path or exception is kept up to the
  interpolation); progress lines and the diagnostics of single records are left out.
\<close>

type_synonym xliff_table = "(int, (string, string) dict) dict"

record relationship =
  rel_parent_message_id :: int
  rel_leads_to_message_id :: "int option"
  rel_context :: "string option"

record xliff_store =
  npc_names :: xliff_table
  xl_messages :: xliff_table
  xl_replies :: xliff_table

record NPCDialogMapper =
  folder_path :: string
  use_xliff :: bool
  xliff_folder :: string
  xliff_files :: "(string, string) dict"
  npcs :: "(int, NPC) dict"
  messages :: "(int, NPCMessage) dict"
  mapper_replies :: "(int, NPCReply) dict"
  mapper_dialogs :: "NPCDialog list"
  metadata :: "NPCMetadata list"
  xliff_translations :: xliff_store
  reply_relationships :: "(int, relationship) dict"
  printed :: "string list"

text \<open>
  The card of one NPC (\<^verbatim>\<open>_generate_npc_card\<close>):
  \<^verbatim>\<open><div class="npc-card collapsible" data-npc-id="I" data-img-urls="U">\<close> with the French
  name as its title, the four name rows, the gender line (one span for each gender that
  is 0, 1 or 2, when \<^verbatim>\<open>npc.genders\<close> is not empty), the context (when it is neither
  \<^verbatim>\<open>None\<close> nor empty) and one \<^verbatim>\<open><div class="dialog-container collapsible">\<close> for each
  dialog of the NPC whose entry message is a key of \<^verbatim>\<open>self.messages\<close>, in the order of
  \<^verbatim>\<open>npc.dialogs\<close>. The card and the document are those of a generation that returns: each
  dialog tree is the tree of \<open>generate_dialog_tree\<close>, which \<open>render_dialog_tree\<close> returns
  when the frames suffice.
\<close>

datatype gender_span = GenderMale | GenderFemale | GenderUndefined

record dialog_container =
  header_dialog_id :: int
  header_check_order :: int
  dialog_tree :: dialog_html

record npc_card =
  data_npc_id :: int
  data_img_urls :: "string option"
  card_title :: string
  card_name_rows :: "formatted list"
  card_gender_info :: "gender_span list option"
  card_context :: "string option"
  card_dialogs :: "dialog_container list"

text \<open>\<^verbatim>\<open>"|".join(urls)\<close>.\<close>

fun join_bar :: "string list \<Rightarrow> string" where
  "join_bar [] = []"
| "join_bar [u] = u"
| "join_bar (u # v # us) = u @ ''|'' @ join_bar (v # us)"

fun gender_items :: "int list \<Rightarrow> gender_span list" where
  "gender_items [] = []"
| "gender_items (g # gs) =
     (if g = 0 then GenderMale # gender_items gs
      else if g = 1 then GenderFemale # gender_items gs
      else if g = 2 then GenderUndefined # gender_items gs
      else gender_items gs)"

fun dialog_containers :: "(int, NPCMessage) dict \<Rightarrow> NPCDialog list \<Rightarrow> dialog_container list" where
  "dialog_containers msgs [] = []"
| "dialog_containers msgs (dialog # ds) =
     (case map_of msgs (dialog_message_id dialog) of
        None \<Rightarrow> dialog_containers msgs ds
      | Some message \<Rightarrow>
          \<lparr> header_dialog_id = dialog_id dialog,
            header_check_order = check_order dialog,
            dialog_tree = generate_dialog_tree msgs message dialog 0 {} \<rparr>
          # dialog_containers msgs ds)"

definition generate_npc_card :: "NPCDialogMapper \<Rightarrow> NPC \<Rightarrow> npc_card" where
  "generate_npc_card self npc =
     \<lparr> data_npc_id = npc_id npc,
       data_img_urls = (if img_urls npc \<noteq> [] then Some (join_bar (img_urls npc)) else None),
       card_title = name_fr npc,
       card_name_rows =
         [format_text_with_null_check (Some (name_fr npc)),
          format_text_with_null_check (name_en npc),
          format_text_with_null_check (name_es npc),
          format_text_with_null_check (name_pt npc)],
       card_gender_info = (if genders npc \<noteq> [] then Some (gender_items (genders npc)) else None),
       card_context =
         (case npc_context npc of None \<Rightarrow> None | Some c \<Rightarrow> if c \<noteq> [] then Some c else None),
       card_dialogs = dialog_containers (messages self) (dialogs npc) \<rparr>"

text \<open>
  \<^verbatim>\<open>str.lower\<close> on the characters below 256: the letters A to Z and the accented
  capitals 0xC0 to 0xDE (without the multiplication sign 0xD7) move up by 32.
\<close>

definition lower_char :: "char \<Rightarrow> char" where
  "lower_char c =
     (let n = (of_char c :: nat)
      in if (65 \<le> n \<and> n \<le> 90) \<or> (192 \<le> n \<and> n \<le> 222 \<and> n \<noteq> 215)
         then char_of (n + 32) else c)"

definition lower :: "string \<Rightarrow> string" where
  "lower s = map lower_char s"

text \<open>
  \<^verbatim>\<open>_generate_html_content\<close>: the cards of the NPCs that have a dialog, taken from
  \<^verbatim>\<open>sorted(self.npcs.values(), key=lambda x: x.name_fr.lower())\<close> (a stable sort; strings
  compare character by character, a proper prefix first), and the three counters of the
  \<^verbatim>\<open>stats\<close> block. The style sheet and the script are constants of the program.
  Neither this method nor the two it calls assigns to an attribute of the mapper or of
  an entity (the only object they change is the \<^verbatim>\<open>visited\<close> set of a render call), so the
  render is a function from the state of the mapper to the document.
\<close>

record html_document =
  stats_total_npcs :: nat
  stats_total_messages :: nat
  stats_total_replies :: nat
  npc_cards :: "npc_card list"

definition sorted_npcs :: "NPCDialogMapper \<Rightarrow> NPC list" where
  "sorted_npcs self = sort_key (\<lambda>x. lower (name_fr x)) (map snd (npcs self))"

definition generate_html_content :: "NPCDialogMapper \<Rightarrow> html_document" where
  "generate_html_content self =
     \<lparr> stats_total_npcs = length (filter (\<lambda>npc. dialogs npc \<noteq> []) (map snd (npcs self))),
       stats_total_messages = length (messages self),
       stats_total_replies = length (mapper_replies self),
       npc_cards =
         map (generate_npc_card self) (filter (\<lambda>npc. dialogs npc \<noteq> []) (sorted_npcs self)) \<rparr>"

subsection \<open>Properties of a rendered tree\<close>

text \<open>
  \<open>no_duplicate_on_path anc t\<close>: along every path from the root of \<open>t\<close> downwards no full
  message node carries an id of \<open>anc\<close> or of a full message node above it.
  \<open>markers_only_for_ancestors anc t\<close>: every reference marker of \<open>t\<close> shows an id of \<open>anc\<close>
  or of a full message node above it on its own path.
  \<open>nesting t\<close> counts the full message nodes on the longest path of \<open>t\<close>.
  \<open>depths_from l t\<close>: the root message of \<open>t\<close> stores depth \<open>l\<close>, each reply stores the depth
  of its message plus 1, each continuation message the depth of its reply plus 1, and
  every node's depth class is its stored depth capped at \<open>max_level\<close>.
\<close>

fun no_duplicate_on_path :: "int set \<Rightarrow> dialog_html \<Rightarrow> bool"
  and no_duplicate_below :: "int set \<Rightarrow> reply_html \<Rightarrow> bool" where
  "no_duplicate_on_path anc (MessageRef i) = True"
| "no_duplicate_on_path anc (MessageDiv a rs) =
     (data_message_id a \<notin> anc \<and> list_all (no_duplicate_below (insert (data_message_id a) anc)) rs)"
| "no_duplicate_below anc (ReplyDiv a None) = True"
| "no_duplicate_below anc (ReplyDiv a (Some t)) = no_duplicate_on_path anc t"

fun markers_only_for_ancestors :: "int set \<Rightarrow> dialog_html \<Rightarrow> bool"
  and markers_below :: "int set \<Rightarrow> reply_html \<Rightarrow> bool" where
  "markers_only_for_ancestors anc (MessageRef i) = (i \<in> anc)"
| "markers_only_for_ancestors anc (MessageDiv a rs) =
     list_all (markers_below (insert (data_message_id a) anc)) rs"
| "markers_below anc (ReplyDiv a None) = True"
| "markers_below anc (ReplyDiv a (Some t)) = markers_only_for_ancestors anc t"


fun depths_from :: "int \<Rightarrow> dialog_html \<Rightarrow> bool"
  and reply_depths_from :: "int \<Rightarrow> reply_html \<Rightarrow> bool" where
  "depths_from l (MessageRef i) = True"
| "depths_from l (MessageDiv a rs) =
     (message_data_depth a = l \<and> message_depth_class a = min l max_level
      \<and> list_all (reply_depths_from (l + 1)) rs)"
| "reply_depths_from l (ReplyDiv a None) =
     (reply_data_depth a = l \<and> reply_depth_class a = min l max_level)"
| "reply_depths_from l (ReplyDiv a (Some t)) =
     (reply_data_depth a = l \<and> reply_depth_class a = min l max_level \<and> depths_from (l + 1) t)"

text \<open>
  \<open>reaches msgs m x\<close>: the renderer can come from message \<open>m\<close> to message \<open>x\<close> by following
  replies to their continuation messages.
\<close>

inductive reaches :: "(int, NPCMessage) dict \<Rightarrow> NPCMessage \<Rightarrow> NPCMessage \<Rightarrow> bool"
  for msgs :: "(int, NPCMessage) dict" and m :: NPCMessage where
  reaches_self: "reaches msgs m m"
| reaches_step: "reaches msgs m x \<Longrightarrow> reply \<in> set (replies x)
     \<Longrightarrow> if_truthy (leads_to_message_id reply) = Some next_id
     \<Longrightarrow> map_of msgs next_id = Some y \<Longrightarrow> reaches msgs m y"

section \<open>Loading\<close>

subsection \<open>Strings\<close>

text \<open>
  The characters below 256 that \<^verbatim>\<open>str.isspace\<close>, \<^verbatim>\<open>str.strip\<close> and the \<^verbatim>\<open>\s\<close> of
  Python's \<^verbatim>\<open>re\<close> take for whitespace: 9 to 13, 28 to 32, 133 and 160.
\<close>

definition is_space :: "char \<Rightarrow> bool" where
  "is_space c =
     (let n = (of_char c :: nat)
      in (9 \<le> n \<and> n \<le> 13) \<or> (28 \<le> n \<and> n \<le> 32) \<or> n = 133 \<or> n = 160)"

definition strip :: "string \<Rightarrow> string" where
  "strip s = rev (dropWhile is_space (rev (dropWhile is_space s)))"

text \<open>\<^verbatim>\<open>s.split(c)\<close>: the pieces between the occurrences of \<open>c\<close>, never an empty list.\<close>

fun split_on :: "char \<Rightarrow> string \<Rightarrow> string list" where
  "split_on c [] = [[]]"
| "split_on c (x # xs) =
     (if x = c then [] # split_on c xs
      else (case split_on c xs of
              [] \<Rightarrow> [[x]]
            | p # ps \<Rightarrow> (x # p) # ps))"

definition startswith :: "string \<Rightarrow> string \<Rightarrow> bool" where
  "startswith s p = (take (length p) s = p)"

subsection \<open>The relationship builder\<close>

text \<open>
  \<^verbatim>\<open>_build_relationships\<close>. Each dialog is appended to the dialog list of the NPC stored
  under its \<^verbatim>\<open>npc_id\<close>, each reply (in the order of \<^verbatim>\<open>self.replies.values()\<close>) to the reply
  list of the message stored under its \<^verbatim>\<open>parent_message_id\<close>; a dialog or reply whose key
  is absent is passed over. The fixed variant sorts the dialogs of every NPC by
  \<^verbatim>\<open>check_order\<close> in between (\<^verbatim>\<open>list.sort\<close> is stable); the original variant does not.
\<close>

definition link_dialog :: "NPCDialog \<Rightarrow> (int, NPC) dict \<Rightarrow> (int, NPC) dict" where
  "link_dialog dialog ns =
     (case map_of ns (dialog_npc_id dialog) of
        None \<Rightarrow> ns
      | Some _ \<Rightarrow>
          AList.map_entry (dialog_npc_id dialog) (\<lambda>npc. npc\<lparr>dialogs := dialogs npc @ [dialog]\<rparr>) ns)"

definition link_reply :: "NPCReply \<Rightarrow> (int, NPCMessage) dict \<Rightarrow> (int, NPCMessage) dict" where
  "link_reply reply ms =
     (case map_of ms (parent_message_id reply) of
        None \<Rightarrow> ms
      | Some _ \<Rightarrow>
          AList.map_entry (parent_message_id reply) (\<lambda>m. m\<lparr>replies := replies m @ [reply]\<rparr>) ms)"

definition build_relationships :: "NPCDialogMapper \<Rightarrow> NPCDialogMapper" where
  "build_relationships self =
     self\<lparr> npcs := map (\<lambda>(k, npc). (k, npc\<lparr>dialogs := sort_key check_order (dialogs npc)\<rparr>))
                     (fold link_dialog (mapper_dialogs self) (npcs self)),
           messages := fold link_reply (map snd (mapper_replies self)) (messages self) \<rparr>"

definition build_relationships_original :: "NPCDialogMapper \<Rightarrow> NPCDialogMapper" where
  "build_relationships_original self =
     self\<lparr> npcs := fold link_dialog (mapper_dialogs self) (npcs self),
           messages := fold link_reply (map snd (mapper_replies self)) (messages self) \<rparr>"

subsection \<open>The metadata matcher\<close>

text \<open>
  \<^verbatim>\<open>_match_metadata_with_npcs\<close> of the fixed variant groups the metadata by their French
  name as it stands (a \<^verbatim>\<open>defaultdict(list)\<close>) and gives every NPC whose French name is a
  key the genders and the image URLs of its group, each through \<^verbatim>\<open>list(set(...))\<close>.
  The order in which Python lists a set is no part of the data: the hashes of the
  elements decide it, and the hash of a string changes from one run of the interpreter
  to the next (the hash of an integer does not). So the two listings are parameters of
  the model: in \<open>match_npc_listed\<close>, \<open>list_genders xs\<close> and \<open>list_urls xs\<close> are what
  \<^verbatim>\<open>list(set(...))\<close> makes, in one run, of the values \<open>xs\<close> in the order of the group.
  \<open>lists_a_set\<close> is what holds of them in every run: each value stands once.
  \<open>match_npc\<close> and \<open>match_metadata_with_npcs\<close> are the matcher with one such listing,
  \<open>remdups\<close> (each value where it occurs last); the order of their lists is the order of
  no particular run, and is used where only the values count, not their order.
\<close>

definition group_metadata :: "NPCMetadata list \<Rightarrow> (string, NPCMetadata list) dict" where
  "group_metadata ms =
     fold (\<lambda>meta by_name.
             AList.update (meta_name_fr meta)
               ((case map_of by_name (meta_name_fr meta) of None \<Rightarrow> [] | Some g \<Rightarrow> g) @ [meta])
               by_name)
          ms []"

definition match_npc_listed ::
  "(int list \<Rightarrow> int list) \<Rightarrow> (string list \<Rightarrow> string list)
     \<Rightarrow> (string, NPCMetadata list) dict \<Rightarrow> NPC \<Rightarrow> NPC" where
  "match_npc_listed list_genders list_urls metadata_by_name npc =
     (case map_of metadata_by_name (name_fr npc) of
        None \<Rightarrow> npc
      | Some matches \<Rightarrow>
          npc\<lparr> genders := list_genders (map gender matches),
               img_urls := list_urls (map img_url matches) \<rparr>)"

definition match_metadata_with_npcs_listed ::
  "(int list \<Rightarrow> int list) \<Rightarrow> (string list \<Rightarrow> string list)
     \<Rightarrow> NPCDialogMapper \<Rightarrow> NPCDialogMapper" where
  "match_metadata_with_npcs_listed list_genders list_urls self =
     self\<lparr> npcs := map (\<lambda>(k, npc).
                          (k, match_npc_listed list_genders list_urls
                                (group_metadata (metadata self)) npc))
                     (npcs self) \<rparr>"

definition lists_a_set :: "('a list \<Rightarrow> 'a list) \<Rightarrow> bool" where
  "lists_a_set l = (\<forall>xs. set (l xs) = set xs \<and> distinct (l xs))"

definition match_npc :: "(string, NPCMetadata list) dict \<Rightarrow> NPC \<Rightarrow> NPC" where
  "match_npc metadata_by_name npc = match_npc_listed remdups remdups metadata_by_name npc"

definition match_metadata_with_npcs :: "NPCDialogMapper \<Rightarrow> NPCDialogMapper" where
  "match_metadata_with_npcs self = match_metadata_with_npcs_listed remdups remdups self"

text \<open>
  The original variant compares, for every NPC and every metadata record in turn, the
  two French names lowercased and stripped, provided neither is empty, and appends the
  gender and the image URL of every record that matches.
\<close>

definition names_match_original :: "NPC \<Rightarrow> NPCMetadata \<Rightarrow> bool" where
  "names_match_original npc meta =
     (name_fr npc \<noteq> [] \<and> meta_name_fr meta \<noteq> []
      \<and> strip (lower (name_fr npc)) = strip (lower (meta_name_fr meta)))"

definition match_npc_original :: "NPCMetadata list \<Rightarrow> NPC \<Rightarrow> NPC" where
  "match_npc_original ms npc =
     fold (\<lambda>meta n.
             if names_match_original n meta
             then n\<lparr> genders := genders n @ [gender meta], img_urls := img_urls n @ [img_url meta] \<rparr>
             else n)
          ms npc"

definition match_metadata_with_npcs_original :: "NPCDialogMapper \<Rightarrow> NPCDialogMapper" where
  "match_metadata_with_npcs_original self =
     self\<lparr> npcs := map (\<lambda>(k, npc). (k, match_npc_original (metadata self) npc)) (npcs self) \<rparr>"

subsection \<open>Merging translations with structure (fixed variant)\<close>

text \<open>
  \<^verbatim>\<open>_merge_xliff_with_structure\<close>: one NPC, message and reply for every key of the three
  translation tables. \<^verbatim>\<open>translations.get('fr', '')\<close> is the French entry or the empty
  string, \<^verbatim>\<open>translations.get('en')\<close> the entry or \<^verbatim>\<open>None\<close>. A reply takes its links from
  \<^verbatim>\<open>self._reply_relationships.get(reply_id, {})\<close>: without a structural record its parent
  is 0, its continuation and its context are \<^verbatim>\<open>None\<close>.
\<close>

definition get_fr :: "(string, string) dict \<Rightarrow> string" where
  "get_fr tr = (case map_of tr ''fr'' of None \<Rightarrow> [] | Some v \<Rightarrow> v)"

definition npc_of_translations :: "int \<Rightarrow> (string, string) dict \<Rightarrow> NPC" where
  "npc_of_translations i tr =
     \<lparr> npc_id = i, name_fr = get_fr tr, name_en = map_of tr ''en'', name_es = map_of tr ''es'',
       name_pt = map_of tr ''pt'', npc_context = None, dialogs = [], genders = [], img_urls = [] \<rparr>"

definition message_of_translations :: "int \<Rightarrow> (string, string) dict \<Rightarrow> NPCMessage" where
  "message_of_translations i tr =
     \<lparr> message_id = i, text_fr = get_fr tr, text_en = map_of tr ''en'', text_es = map_of tr ''es'',
       text_pt = map_of tr ''pt'', message_context = None, replies = [] \<rparr>"

definition reply_of_translations ::
  "(int, relationship) dict \<Rightarrow> int \<Rightarrow> (string, string) dict \<Rightarrow> NPCReply" where
  "reply_of_translations rels i tr =
     \<lparr> reply_id = i, reply_text_fr = get_fr tr, reply_text_en = map_of tr ''en'',
       reply_text_es = map_of tr ''es'', reply_text_pt = map_of tr ''pt'',
       reply_context = (case map_of rels i of None \<Rightarrow> None | Some rel \<Rightarrow> rel_context rel),
       parent_message_id =
         (case map_of rels i of None \<Rightarrow> 0 | Some rel \<Rightarrow> rel_parent_message_id rel),
       leads_to_message_id =
         (case map_of rels i of None \<Rightarrow> None | Some rel \<Rightarrow> rel_leads_to_message_id rel) \<rparr>"

definition merge_xliff_with_structure :: "NPCDialogMapper \<Rightarrow> NPCDialogMapper" where
  "merge_xliff_with_structure self =
     self\<lparr> npcs := fold (\<lambda>(i, tr). AList.update i (npc_of_translations i tr))
                      (npc_names (xliff_translations self)) (npcs self),
           messages := fold (\<lambda>(i, tr). AList.update i (message_of_translations i tr))
                          (xl_messages (xliff_translations self)) (messages self),
           mapper_replies :=
             fold (\<lambda>(i, tr). AList.update i (reply_of_translations (reply_relationships self) i tr))
                  (xl_replies (xliff_translations self)) (mapper_replies self),
           reply_relationships := [] \<rparr>"

subsection \<open>Translation files (fixed variant)\<close>

text \<open>
  What \<^verbatim>\<open>_load_xliff_translations\<close> reads of a translation unit: its \<^verbatim>\<open>id\<close> attribute
  (the empty string when absent) and the texts of its \<^verbatim>\<open>source\<close> and \<^verbatim>\<open>target\<close>
  elements, \<open>None\<close> for an element that is absent and \<open>Some []\<close> for one without text.
  A translation file is missing, or \<^verbatim>\<open>ET.parse\<close> rejects it, or it holds a list of
  units.
\<close>

record trans_unit =
  unit_id :: string
  source_text :: "string option"
  target_text :: "string option"

datatype xliff_file = XMissing | XMalformed | XUnits "trans_unit list"

text \<open>
  \<^verbatim>\<open>_clean_source_text\<close>: \<^verbatim>\<open>re.sub(r'^\[wait_mod_[^\]]+\]\s*', '', text).strip()\<close>. The
  pattern matches at the start of the text only: the ten characters \<^verbatim>\<open>[wait_mod_\<close>, at
  least one character other than \<^verbatim>\<open>]\<close>, the \<^verbatim>\<open>]\<close>, and the whitespace after it.
\<close>

definition remove_wait_mod :: "string \<Rightarrow> string" where
  "remove_wait_mod text =
     (if startswith text ''[wait_mod_'' then
        (let rest = drop 10 text;
             body = takeWhile (\<lambda>c. c \<noteq> CHR '']'') rest;
             closing = dropWhile (\<lambda>c. c \<noteq> CHR '']'') rest
         in if body \<noteq> [] \<and> closing \<noteq> [] then dropWhile is_space (tl closing) else text)
      else text)"

definition clean_source_text :: "string \<Rightarrow> string" where
  "clean_source_text text = strip (remove_wait_mod text)"

text \<open>
  \<^verbatim>\<open>int(entity_id)\<close> on a string of characters below 256: surrounding whitespace is
  dropped, one sign may lead, and the rest must be decimal digits, where single
  underscores may stand between two digits. The whitespace of \<^verbatim>\<open>int\<close> is 9 to 13, 32,
  133 and 160: the separators 28 to 31, which \<^verbatim>\<open>str.strip\<close> removes, make \<^verbatim>\<open>int\<close> fail.
  A string of more than 4300 digits fails too, whatever its value (the interpreter's
  default limit on integer strings, \<^verbatim>\<open>sys.int_info.default_max_str_digits\<close>; the sign and
  the underscores do not count, leading zeros do). \<open>None\<close> is the \<^verbatim>\<open>ValueError\<close>.
\<close>

definition is_digit :: "char \<Rightarrow> bool" where
  "is_digit c = (48 \<le> (of_char c :: nat) \<and> (of_char c :: nat) \<le> 57)"

fun parse_digits :: "nat \<Rightarrow> string \<Rightarrow> nat option" where
  "parse_digits acc [] = Some acc"
| "parse_digits acc (c # cs) =
     (if is_digit c then parse_digits (10 * acc + (of_char c - 48)) cs
      else if c = CHR ''_'' then
        (case cs of
           [] \<Rightarrow> None
         | d # _ \<Rightarrow> if is_digit d then parse_digits acc cs else None)
      else None)"

definition max_str_digits :: nat where
  "max_str_digits = 4300"

definition py_digits :: "string \<Rightarrow> nat option" where
  "py_digits s =
     (case s of
        [] \<Rightarrow> None
      | c # _ \<Rightarrow>
          if is_digit c \<and> length (filter is_digit s) \<le> max_str_digits then parse_digits 0 s
          else None)"

definition int_space :: "char \<Rightarrow> bool" where
  "int_space c =
     (let n = (of_char c :: nat)
      in (9 \<le> n \<and> n \<le> 13) \<or> n = 32 \<or> n = 133 \<or> n = 160)"

definition py_int :: "string \<Rightarrow> int option" where
  "py_int s =
     (case rev (dropWhile int_space (rev (dropWhile int_space s))) of
        [] \<Rightarrow> None
      | c # cs \<Rightarrow>
          if c = CHR ''-'' then map_option (\<lambda>n. - int n) (py_digits cs)
          else if c = CHR ''+'' then map_option int (py_digits cs)
          else map_option int (py_digits (c # cs)))"

text \<open>\<^verbatim>\<open>lang_pair.split('-')[1]\<close>; \<open>None\<close> is the \<^verbatim>\<open>IndexError\<close> of a pair without a hyphen.\<close>

definition target_lang_of :: "string \<Rightarrow> string option" where
  "target_lang_of lang_pair =
     (case split_on CHR ''-'' lang_pair of
        _ # t # _ \<Rightarrow> Some t
      | _ \<Rightarrow> None)"

text \<open>
  The store into one of the three tables: a new entity id gets the entry
  \<^verbatim>\<open>{'fr': source_text}\<close> first; then the entry of the id gets \<^verbatim>\<open>target_text\<close> under the
  target language.
\<close>

definition record_translation ::
  "int \<Rightarrow> string \<Rightarrow> string \<Rightarrow> string \<Rightarrow> xliff_table \<Rightarrow> xliff_table" where
  "record_translation entity_id src target_lang tgt table =
     AList.map_entry entity_id (AList.update target_lang tgt)
       (case map_of table entity_id of
          None \<Rightarrow> AList.update entity_id [(''fr'', src)] table
        | Some _ \<Rightarrow> table)"

text \<open>
  The body of the loop over the units of one file. A unit counts when its id starts
  with \<^verbatim>\<open>npc.\<close>, it has a source and a target element, its id has at least three parts
  between dots and the second part is an integer; the third part chooses the table, and
  a unit of any other type is passed over.
\<close>

definition process_unit :: "string \<Rightarrow> trans_unit \<Rightarrow> xliff_store \<Rightarrow> xliff_store" where
  "process_unit target_lang u store =
     (if startswith (unit_id u) ''npc.'' then
        (case (source_text u, target_text u) of
           (Some src, Some tgt) \<Rightarrow>
             (case split_on CHR ''.'' (unit_id u) of
                _ # entity_id # entry_type # _ \<Rightarrow>
                  (case py_int entity_id of
                     None \<Rightarrow> store
                   | Some i \<Rightarrow>
                       if entry_type = ''name'' then
                         store\<lparr>npc_names :=
                           record_translation i (clean_source_text src) target_lang tgt (npc_names store)\<rparr>
                       else if entry_type = ''message'' then
                         store\<lparr>xl_messages :=
                           record_translation i (clean_source_text src) target_lang tgt (xl_messages store)\<rparr>
                       else if entry_type = ''reply'' then
                         store\<lparr>xl_replies :=
                           record_translation i (clean_source_text src) target_lang tgt (xl_replies store)\<rparr>
                       else store)
              | _ \<Rightarrow> store)
         | _ \<Rightarrow> store)
      else store)"

subsection \<open>Files and errors\<close>

text \<open>
  What a loader sees of a JSON file: the file is missing; \<^verbatim>\<open>json.load\<close> rejects it; it
  is a list of items; or it is an object with a single key whose value is a list of
  items (the shape \<^verbatim>\<open>list(data.values())[0]\<close> of the fixed variant expects). What a
  loader sees of an item: it is no mapping; it is a mapping that lacks a key the loader
  indexes; or it is a mapping from which the loader builds an entity. Other JSON shapes
  are outside the model.
  An exception that leaves \<^verbatim>\<open>load_data\<close> is a \<open>load_error\<close>: \<open>FileNotFoundError\<close> for a
  missing file, \<open>IndexError\<close> for a language pair without a hyphen, \<open>DataError\<close> for any
  exception raised by \<^verbatim>\<open>json.load\<close> or by reading the decoded data. When the load
  fails the model returns the exception alone.
\<close>

datatype 'a item = NotMapping | MissingField | Entity 'a

datatype 'a json_file = Missing | Unparsable | BareList "'a item list" | Wrapped "'a item list"

datatype load_error = FileNotFoundError | IndexError | DataError

record file_system =
  npc_json :: "NPC json_file"
  message_json :: "NPCMessage json_file"
  reply_json :: "NPCReply json_file"
  dialog_json :: "NPCDialog json_file"
  metadata_json :: "NPCMetadata json_file"
  xliff_dir :: "string \<Rightarrow> xliff_file"

definition then_load :: "load_error + 'a \<Rightarrow> ('a \<Rightarrow> load_error + 'b) \<Rightarrow> load_error + 'b" where
  "then_load r f = (case r of Inl e \<Rightarrow> Inl e | Inr x \<Rightarrow> f x)"

definition say :: "string \<Rightarrow> NPCDialogMapper \<Rightarrow> NPCDialogMapper" where
  "say line self = self\<lparr>printed := printed self @ [line]\<rparr>"

text \<open>\<^verbatim>\<open>NPCDialogMapper.__init__\<close>.\<close>

definition init_mapper :: "string \<Rightarrow> bool \<Rightarrow> string \<Rightarrow> (string, string) dict \<Rightarrow> NPCDialogMapper" where
  "init_mapper folder xliff_mode folder' files =
     \<lparr> folder_path = folder, use_xliff = xliff_mode, xliff_folder = folder', xliff_files = files,
       npcs = [], messages = [], mapper_replies = [], mapper_dialogs = [], metadata = [],
       xliff_translations = \<lparr> npc_names = [], xl_messages = [], xl_replies = [] \<rparr>,
       reply_relationships = [], printed = [] \<rparr>"

text \<open>
  \<^verbatim>\<open>_load_xliff_translations\<close>: the files in the order of \<^verbatim>\<open>self.xliff_files\<close>. A missing
  file is passed over with a warning before its language pair is looked at; the target
  language is computed outside the \<^verbatim>\<open>try\<close>, so its \<^verbatim>\<open>IndexError\<close> ends the load; a file
  that does not parse is passed over with an error line.
\<close>

fun load_xliff_files ::
  "(string \<Rightarrow> xliff_file) \<Rightarrow> (string \<times> string) list \<Rightarrow> NPCDialogMapper
     \<Rightarrow> load_error + NPCDialogMapper" where
  "load_xliff_files dir [] self = Inr self"
| "load_xliff_files dir ((lang_pair, filename) # rest) self =
     (case dir filename of
        XMissing \<Rightarrow> load_xliff_files dir rest (say ''    Warning: File not found: '' self)
      | XMalformed \<Rightarrow>
          (case target_lang_of lang_pair of
             None \<Rightarrow> Inl IndexError
           | Some _ \<Rightarrow> load_xliff_files dir rest (say ''    Error parsing '' self))
      | XUnits units \<Rightarrow>
          (case target_lang_of lang_pair of
             None \<Rightarrow> Inl IndexError
           | Some target_lang \<Rightarrow>
               load_xliff_files dir rest
                 (self\<lparr>xliff_translations :=
                    fold (process_unit target_lang) units (xliff_translations self)\<rparr>)))"

definition load_xliff_translations :: "file_system \<Rightarrow> NPCDialogMapper \<Rightarrow> load_error + NPCDialogMapper" where
  "load_xliff_translations fs self = load_xliff_files (xliff_dir fs) (xliff_files self) self"

subsection \<open>JSON loaders of the fixed variant\<close>

text \<open>
  \<^verbatim>\<open>_load_npcs\<close>, \<^verbatim>\<open>_load_messages\<close>, \<^verbatim>\<open>_load_replies\<close> and \<^verbatim>\<open>_load_dialogs\<close> open their
  file without looking whether it exists, index every key of every item, and re-raise
  whatever exception occurs after printing it: a missing file, a file that is no JSON, a
  bare list (it has no \<^verbatim>\<open>values\<close>) and an item that is no mapping or lacks a key all
  end the load. An entity is stored under its id; the lists an entity owns start empty.
\<close>

fun store_entities :: "('a \<Rightarrow> 'd \<Rightarrow> 'd) \<Rightarrow> 'a item list \<Rightarrow> 'd \<Rightarrow> load_error + 'd" where
  "store_entities put [] d = Inr d"
| "store_entities put (Entity e # rest) d = store_entities put rest (put e d)"
| "store_entities put (NotMapping # rest) d = Inl DataError"
| "store_entities put (MissingField # rest) d = Inl DataError"

definition read_wrapped :: "'a json_file \<Rightarrow> load_error + 'a item list" where
  "read_wrapped file =
     (case file of
        Missing \<Rightarrow> Inl FileNotFoundError
      | Unparsable \<Rightarrow> Inl DataError
      | BareList _ \<Rightarrow> Inl DataError
      | Wrapped items \<Rightarrow> Inr items)"

definition load_npcs :: "file_system \<Rightarrow> NPCDialogMapper \<Rightarrow> load_error + NPCDialogMapper" where
  "load_npcs fs self =
     then_load (read_wrapped (npc_json fs)) (\<lambda>npc_data.
     then_load (store_entities
                  (\<lambda>npc. AList.update (npc_id npc) (npc\<lparr>dialogs := [], genders := [], img_urls := []\<rparr>))
                  npc_data (npcs self)) (\<lambda>loaded.
     Inr (self\<lparr>npcs := loaded\<rparr>)))"

definition load_messages :: "file_system \<Rightarrow> NPCDialogMapper \<Rightarrow> load_error + NPCDialogMapper" where
  "load_messages fs self =
     then_load (read_wrapped (message_json fs)) (\<lambda>message_data.
     then_load (store_entities
                  (\<lambda>msg. AList.update (message_id msg) (msg\<lparr>replies := []\<rparr>))
                  message_data (messages self)) (\<lambda>loaded.
     Inr (self\<lparr>messages := loaded\<rparr>)))"

definition load_replies :: "file_system \<Rightarrow> NPCDialogMapper \<Rightarrow> load_error + NPCDialogMapper" where
  "load_replies fs self =
     then_load (read_wrapped (reply_json fs)) (\<lambda>reply_data.
     then_load (store_entities (\<lambda>reply. AList.update (reply_id reply) reply)
                  reply_data (mapper_replies self)) (\<lambda>loaded.
     Inr (self\<lparr>mapper_replies := loaded\<rparr>)))"

definition load_dialogs :: "file_system \<Rightarrow> NPCDialogMapper \<Rightarrow> load_error + NPCDialogMapper" where
  "load_dialogs fs self =
     then_load (read_wrapped (dialog_json fs)) (\<lambda>dialog_data.
     then_load (store_entities (\<lambda>dialog ds. ds @ [dialog]) dialog_data (mapper_dialogs self))
       (\<lambda>loaded.
     Inr (self\<lparr>mapper_dialogs := loaded\<rparr>)))"

text \<open>
  \<^verbatim>\<open>_load_structure_from_json\<close>: the dialogs as above, then one structural record for
  every reply of the reply file, stored under the reply id.
\<close>

definition load_structure_from_json ::
  "file_system \<Rightarrow> NPCDialogMapper \<Rightarrow> load_error + NPCDialogMapper" where
  "load_structure_from_json fs self =
     then_load (read_wrapped (dialog_json fs)) (\<lambda>dialog_data.
     then_load (store_entities (\<lambda>dialog ds. ds @ [dialog]) dialog_data (mapper_dialogs self))
       (\<lambda>loaded_dialogs.
     then_load (read_wrapped (reply_json fs)) (\<lambda>reply_data.
     then_load (store_entities
                  (\<lambda>reply. AList.update (reply_id reply)
                     \<lparr> rel_parent_message_id = parent_message_id reply,
                       rel_leads_to_message_id = leads_to_message_id reply,
                       rel_context = reply_context reply \<rparr>)
                  reply_data []) (\<lambda>relationships.
     Inr (self\<lparr>mapper_dialogs := loaded_dialogs, reply_relationships := relationships\<rparr>)))))"

text \<open>
  \<^verbatim>\<open>_load_metadata\<close> looks whether its file exists and catches every exception: the
  records before the first item that raises stay loaded. The file is read as a bare
  list; iterating a wrapping object yields its key, which is no mapping.
\<close>

fun leading_entities :: "'a item list \<Rightarrow> 'a list" where
  "leading_entities [] = []"
| "leading_entities (Entity e # rest) = e # leading_entities rest"
| "leading_entities (NotMapping # rest) = []"
| "leading_entities (MissingField # rest) = []"

fun entities :: "'a item list \<Rightarrow> 'a list" where
  "entities [] = []"
| "entities (Entity e # rest) = e # entities rest"
| "entities (NotMapping # rest) = entities rest"
| "entities (MissingField # rest) = entities rest"

definition load_metadata :: "file_system \<Rightarrow> NPCDialogMapper \<Rightarrow> NPCDialogMapper" where
  "load_metadata fs self =
     (case metadata_json fs of
        Missing \<Rightarrow> say ''Warning: Metadata file not found'' self
      | Unparsable \<Rightarrow>
          say ''Continuing without metadata...'' (say ''Error loading metadata: '' self)
      | Wrapped _ \<Rightarrow>
          say ''Continuing without metadata...'' (say ''Error loading metadata: '' self)
      | BareList items \<Rightarrow>
          (let loaded = self\<lparr>metadata := metadata self @ leading_entities items\<rparr>
           in if length (leading_entities items) = length items then loaded
              else say ''Continuing without metadata...'' (say ''Error loading metadata: '' loaded)))"

text \<open>
  \<^verbatim>\<open>load_data\<close> of the fixed variant. No exception is caught here. The last step is the
  metadata matcher, so the two listings of the matcher are parameters of a load too:
  \<open>load_data_listed list_genders list_urls\<close> is the load in a run of the interpreter that
  lists its sets so, and \<open>load_data\<close> is the load with the listing \<open>remdups\<close>.
\<close>

definition load_data_listed ::
  "(int list \<Rightarrow> int list) \<Rightarrow> (string list \<Rightarrow> string list)
     \<Rightarrow> file_system \<Rightarrow> NPCDialogMapper \<Rightarrow> load_error + NPCDialogMapper" where
  "load_data_listed list_genders list_urls fs self =
     then_load
       (if use_xliff self then
          then_load (load_xliff_translations fs (load_metadata fs self)) (\<lambda>s1.
          then_load (load_structure_from_json fs s1) (\<lambda>s2.
          Inr (merge_xliff_with_structure s2)))
        else
          then_load (load_npcs fs (load_metadata fs self)) (\<lambda>s1.
          then_load (load_messages fs s1) (\<lambda>s2.
          then_load (load_replies fs s2) (\<lambda>s3.
          load_dialogs fs s3))))
       (\<lambda>loaded. Inr (match_metadata_with_npcs_listed list_genders list_urls
                         (build_relationships loaded)))"

definition load_data :: "file_system \<Rightarrow> NPCDialogMapper \<Rightarrow> load_error + NPCDialogMapper" where
  "load_data fs self = load_data_listed remdups remdups fs self"

subsection \<open>JSON loaders of the original variant\<close>

text \<open>
  \<^verbatim>\<open>_load_npcs\<close>, \<^verbatim>\<open>_load_messages\<close>, \<^verbatim>\<open>_load_replies\<close> and \<^verbatim>\<open>_load_metadata\<close> of
  \<^verbatim>\<open>npc_dialog_mapper_gui.pyw\<close> return with a warning when their file is missing and
  catch every exception. The file is read as a bare list (indexing a wrapping object
  with 0 raises, which is caught); an empty list and a list whose first item is no
  mapping load nothing; otherwise the items that are no mapping or lack a required key
  are passed over.
\<close>

definition say_all :: "string list \<Rightarrow> NPCDialogMapper \<Rightarrow> NPCDialogMapper" where
  "say_all lines self = self\<lparr>printed := printed self @ lines\<rparr>"

definition load_listed ::
  "string \<Rightarrow> string \<Rightarrow> string list \<Rightarrow> string list \<Rightarrow> 'a json_file
     \<Rightarrow> ('a list \<Rightarrow> NPCDialogMapper \<Rightarrow> NPCDialogMapper)
     \<Rightarrow> NPCDialogMapper \<Rightarrow> NPCDialogMapper" where
  "load_listed missing_line empty_line shape_lines error_lines file put self =
     (case file of
        Missing \<Rightarrow> say missing_line self
      | Unparsable \<Rightarrow> say_all error_lines self
      | Wrapped _ \<Rightarrow> say_all error_lines self
      | BareList items \<Rightarrow>
          (case items of
             [] \<Rightarrow> say empty_line self
           | NotMapping # _ \<Rightarrow> say_all shape_lines self
           | _ \<Rightarrow> put (entities items) self))"

definition load_npcs_original :: "file_system \<Rightarrow> NPCDialogMapper \<Rightarrow> NPCDialogMapper" where
  "load_npcs_original fs self =
     load_listed ''Warning: NPC file not found'' ''Warning: NPC file is empty''
       [''ERROR: Expected list of dictionaries, got list of '', ''First entry sample: '']
       [''Error loading NPC file: '']
       (npc_json fs)
       (\<lambda>es s. s\<lparr>npcs :=
          fold (\<lambda>npc. AList.update (npc_id npc) (npc\<lparr>dialogs := [], genders := [], img_urls := []\<rparr>))
            es (npcs s)\<rparr>)
       self"

definition load_messages_original :: "file_system \<Rightarrow> NPCDialogMapper \<Rightarrow> NPCDialogMapper" where
  "load_messages_original fs self =
     load_listed ''Warning: Message file not found'' ''Warning: Message file is empty''
       [''ERROR: Expected list of dictionaries, got list of '', ''First entry sample: '']
       [''Error loading message file: '']
       (message_json fs)
       (\<lambda>es s. s\<lparr>messages :=
          fold (\<lambda>msg. AList.update (message_id msg) (msg\<lparr>replies := []\<rparr>)) es (messages s)\<rparr>)
       self"

definition load_replies_original :: "file_system \<Rightarrow> NPCDialogMapper \<Rightarrow> NPCDialogMapper" where
  "load_replies_original fs self =
     load_listed ''Warning: Reply file not found'' ''Warning: Reply file is empty''
       [''ERROR: Expected list of dictionaries, got list of '', ''First entry sample: '']
       [''Error loading reply file: '']
       (reply_json fs)
       (\<lambda>es s. s\<lparr>mapper_replies :=
          fold (\<lambda>reply. AList.update (reply_id reply) reply) es (mapper_replies s)\<rparr>)
       self"

definition load_metadata_original :: "file_system \<Rightarrow> NPCDialogMapper \<Rightarrow> NPCDialogMapper" where
  "load_metadata_original fs self =
     load_listed ''Warning: Metadata file not found'' ''Warning: Metadata file is empty''
       [''ERROR: Expected list of dictionaries, got list of '', ''First entry sample: '',
        ''Cannot process metadata file with this structure'']
       [''Error loading metadata file: '', ''Continuing without metadata...'']
       (metadata_json fs)
       (\<lambda>es s. s\<lparr>metadata := metadata s @ es\<rparr>)
       self"

text \<open>
  \<^verbatim>\<open>_load_dialogs\<close> of the original variant raises \<^verbatim>\<open>FileNotFoundError\<close> when its file is
  missing and re-raises what \<^verbatim>\<open>json.load\<close> raises; an item that cannot be read is passed
  over (of a wrapping object the loop sees the key only).
\<close>

definition load_dialogs_original ::
  "file_system \<Rightarrow> NPCDialogMapper \<Rightarrow> load_error + NPCDialogMapper" where
  "load_dialogs_original fs self =
     (case dialog_json fs of
        Missing \<Rightarrow> Inl FileNotFoundError
      | Unparsable \<Rightarrow> Inl DataError
      | Wrapped _ \<Rightarrow> Inr self
      | BareList items \<Rightarrow> Inr (self\<lparr>mapper_dialogs := mapper_dialogs self @ entities items\<rparr>))"

text \<open>
  \<^verbatim>\<open>load_data\<close> of the original variant for \<^verbatim>\<open>use_xliff\<close> false; its \<^verbatim>\<open>except\<close> clause
  prints the exception and raises it again.
\<close>

definition load_json_data_original ::
  "file_system \<Rightarrow> NPCDialogMapper \<Rightarrow> load_error + NPCDialogMapper" where
  "load_json_data_original fs self =
     then_load
       (load_dialogs_original fs
          (load_replies_original fs
             (load_messages_original fs
                (load_npcs_original fs
                   (load_metadata_original fs self)))))
       (\<lambda>loaded. Inr (match_metadata_with_npcs_original (build_relationships_original loaded)))"

section \<open>The search contract of the generated page\<close>

text \<open>
  The script of the page tests one language row at a time, in \<^verbatim>\<open>searchInText\<close>,
  \<^verbatim>\<open>searchInNPCNames\<close> and \<^verbatim>\<open>dialogTreeContainsMatch\<close> alike: with \<^verbatim>\<open>exactMatch\<close> the
  regular expression \<^verbatim>\<open>\bTERM\b\<close>, else with \<^verbatim>\<open>useWildcards\<close> and a \<^verbatim>\<open>*\<close> in the term the
  expression \<^verbatim>\<open>wildcardToRegex(term)\<close>, else \<^verbatim>\<open>textContent.includes(term)\<close>. In both
  expressions every character of the term that means something to \<^verbatim>\<open>RegExp\<close> is escaped,
  so an expression is a sequence of literal characters, of \<^verbatim>\<open>[^\s]*\<close> (one for every \<^verbatim>\<open>*\<close>
  of a wildcard term) and of word boundaries. Expressions are tested with the flag \<^verbatim>\<open>i\<close>:
  two characters below 256 are the same letter when they agree after lowercasing.
  \<^verbatim>\<open>\s\<close> is, below 256, one of the characters 9 to 13, 32 and 160; a word character is a
  letter A to Z or a to z, a digit or the underscore.
\<close>

datatype regex_item = Lit char | NonSpaceStar | WordBoundary

definition js_space :: "char \<Rightarrow> bool" where
  "js_space c = (let n = (of_char c :: nat) in (9 \<le> n \<and> n \<le> 13) \<or> n = 32 \<or> n = 160)"

definition js_word :: "char \<Rightarrow> bool" where
  "js_word c =
     (let n = (of_char c :: nat)
      in (65 \<le> n \<and> n \<le> 90) \<or> (97 \<le> n \<and> n \<le> 122) \<or> (48 \<le> n \<and> n \<le> 57) \<or> n = 95)"

definition same_letter :: "char \<Rightarrow> char \<Rightarrow> bool" where
  "same_letter c d = (lower_char c = lower_char d)"

text \<open>A word boundary: exactly one of the characters before and after the position is a
  word character (the ends of the text count as no word character).\<close>

definition at_boundary :: "char option \<Rightarrow> string \<Rightarrow> bool" where
  "at_boundary prev text =
     ((case prev of None \<Rightarrow> False | Some p \<Rightarrow> js_word p)
      \<noteq> (case text of [] \<Rightarrow> False | x # _ \<Rightarrow> js_word x))"

text \<open>\<open>match_here items prev text\<close>: the expression matches a prefix of \<open>text\<close>, where \<open>prev\<close>
  is the character before \<open>text\<close>. \<open>regex_test\<close> is \<^verbatim>\<open>RegExp.prototype.test\<close>: a match at
  some position.\<close>

fun match_here :: "regex_item list \<Rightarrow> char option \<Rightarrow> string \<Rightarrow> bool" where
  "match_here [] prev text = True"
| "match_here (Lit c # items) prev [] = False"
| "match_here (Lit c # items) prev (x # xs) = (same_letter c x \<and> match_here items (Some x) xs)"
| "match_here (NonSpaceStar # items) prev [] = match_here items prev []"
| "match_here (NonSpaceStar # items) prev (x # xs) =
     ((\<not> js_space x \<and> match_here (NonSpaceStar # items) (Some x) xs)
      \<or> match_here items prev (x # xs))"
| "match_here (WordBoundary # items) prev text = (at_boundary prev text \<and> match_here items prev text)"

fun match_from :: "regex_item list \<Rightarrow> char option \<Rightarrow> string \<Rightarrow> bool" where
  "match_from items prev [] = match_here items prev []"
| "match_from items prev (x # xs) = (match_here items prev (x # xs) \<or> match_from items (Some x) xs)"

definition regex_test :: "regex_item list \<Rightarrow> string \<Rightarrow> bool" where
  "regex_test items text = match_from items None text"

text \<open>The expression of an exact match, \<^verbatim>\<open>wildcardToRegex\<close>, and \<^verbatim>\<open>String.prototype.includes\<close>.\<close>

definition exact_regex :: "string \<Rightarrow> regex_item list" where
  "exact_regex pattern = WordBoundary # map Lit pattern @ [WordBoundary]"

definition wildcardToRegex :: "string \<Rightarrow> regex_item list" where
  "wildcardToRegex pattern = map (\<lambda>c. if c = CHR ''*'' then NonSpaceStar else Lit c) pattern"

fun js_includes :: "string \<Rightarrow> string \<Rightarrow> bool" where
  "js_includes [] pattern = (pattern = [])"
| "js_includes (x # xs) pattern = (startswith (x # xs) pattern \<or> js_includes xs pattern)"

text \<open>
  The test of one row in \<^verbatim>\<open>searchInText\<close>. \<open>row_text\<close> is \<^verbatim>\<open>row.textContent\<close>;
  \<open>removeDiacritics\<close> stands for the function of that name, which rests on the Unicode
  normalization of the browser.
\<close>

definition row_matches ::
  "(string \<Rightarrow> string) \<Rightarrow> string \<Rightarrow> string \<Rightarrow> bool \<Rightarrow> bool \<Rightarrow> bool \<Rightarrow> bool" where
  "row_matches removeDiacritics row_text searchTerm ignoreDiacritics useWildcards exactMatch =
     (let textContent =
            (if ignoreDiacritics then removeDiacritics (lower row_text) else lower row_text);
          pattern = (if ignoreDiacritics then removeDiacritics searchTerm else searchTerm)
      in if exactMatch then regex_test (exact_regex pattern) textContent
         else if useWildcards \<and> CHR ''*'' \<in> set pattern
           then regex_test (wildcardToRegex pattern) textContent
         else js_includes textContent pattern)"

text \<open>The expression \<^verbatim>\<open>highlightText\<close> builds for a term: the same three cases in the same
  order, the last one being the escaped term.\<close>

definition highlight_regex ::
  "(string \<Rightarrow> string) \<Rightarrow> string \<Rightarrow> bool \<Rightarrow> bool \<Rightarrow> bool \<Rightarrow> regex_item list" where
  "highlight_regex removeDiacritics searchTerm ignoreDiacritics useWildcards exactMatch =
     (let pattern = (if ignoreDiacritics then removeDiacritics searchTerm else searchTerm)
      in if exactMatch then exact_regex pattern
         else if useWildcards \<and> CHR ''*'' \<in> set pattern then wildcardToRegex pattern
         else map Lit pattern)"

subsection \<open>Example graphs\<close>

text \<open>
  \<open>cyclic_messages\<close>: message 100 has reply 200 leading to message 101, whose reply 201
  leads back to message 100. \<open>diamond_messages\<close>: message 1 has the replies 10 and 11,
  leading to the messages 2 and 3; each of those has one reply leading to message 4,
  which has no reply.
\<close>

definition example_reply :: "int \<Rightarrow> int \<Rightarrow> int option \<Rightarrow> NPCReply" where
  "example_reply rid parent next =
     \<lparr> reply_id = rid, reply_text_fr = ''Oui'', reply_text_en = Some ''Yes'',
       reply_text_es = None, reply_text_pt = None, reply_context = None,
       parent_message_id = parent, leads_to_message_id = next \<rparr>"

definition example_message :: "int \<Rightarrow> NPCReply list \<Rightarrow> NPCMessage" where
  "example_message mid rs =
     \<lparr> message_id = mid, text_fr = ''Halte'', text_en = Some ''Halt'',
       text_es = None, text_pt = None, message_context = None, replies = rs \<rparr>"

definition example_dialog :: NPCDialog where
  "example_dialog = \<lparr> dialog_id = 1, dialog_npc_id = 7, dialog_message_id = 100, check_order = 0 \<rparr>"

definition cyclic_messages :: "(int, NPCMessage) dict" where
  "cyclic_messages =
     [(100, example_message 100 [example_reply 200 100 (Some 101)]),
      (101, example_message 101 [example_reply 201 101 (Some 100)])]"

definition diamond_messages :: "(int, NPCMessage) dict" where
  "diamond_messages =
     [(1, example_message 1 [example_reply 10 1 (Some 2), example_reply 11 1 (Some 3)]),
      (2, example_message 2 [example_reply 20 2 (Some 4)]),
      (3, example_message 3 [example_reply 30 3 (Some 4)]),
      (4, example_message 4 [])]"



definition cyclic_entry :: NPCMessage where
  "cyclic_entry = example_message 100 [example_reply 200 100 (Some 101)]"

definition diamond_entry :: NPCMessage where
  "diamond_entry =
     example_message 1 [example_reply 10 1 (Some 2), example_reply 11 1 (Some 3)]"

text \<open>
  \<open>example_mapper\<close>: three NPCs stored in the order Zoe, alice, Bob; Zoe and alice own one
  dialog each, Bob owns none.
\<close>

definition example_npc :: "int \<Rightarrow> string \<Rightarrow> NPCDialog list \<Rightarrow> NPC" where
  "example_npc i name ds =
     \<lparr> npc_id = i, name_fr = name, name_en = None, name_es = None, name_pt = None,
       npc_context = None, dialogs = ds, genders = [], img_urls = [] \<rparr>"

definition example_mapper :: NPCDialogMapper where
  "example_mapper =
     \<lparr> folder_path = ''data'', use_xliff = False, xliff_folder = [], xliff_files = [],
       npcs = [(7, example_npc 7 ''Zoe'' [example_dialog]),
               (8, example_npc 8 ''alice''
                     [\<lparr> dialog_id = 2, dialog_npc_id = 8, dialog_message_id = 101, check_order = 0 \<rparr>]),
               (9, example_npc 9 ''Bob'' [])],
       messages = cyclic_messages,
       mapper_replies = [(200, example_reply 200 100 (Some 101)),
                         (201, example_reply 201 101 (Some 100))],
       mapper_dialogs = [example_dialog,
                         \<lparr> dialog_id = 2, dialog_npc_id = 8, dialog_message_id = 101, check_order = 0 \<rparr>],
       metadata = [],
       xliff_translations = \<lparr> npc_names = [], xl_messages = [], xl_replies = [] \<rparr>,
       reply_relationships = [], printed = [] \<rparr>"

text \<open>
  \<open>orphan_reply_mapper\<close>: a mapper in translation-file mode after the translations and
  the structure are loaded. The replies 5 and 6 are translated; the structure knows
  reply 6 only (under message 7). The messages 0 and 7 are translated.
  \<open>orphan_reply_mapper_without_0\<close> is the same without message 0.
\<close>

definition orphan_reply_mapper :: NPCDialogMapper where
  "orphan_reply_mapper =
     (init_mapper ''data'' True ''xliff'' [])
       \<lparr> xliff_translations :=
           \<lparr> npc_names = [],
             xl_messages = [(0, [(''fr'', ''Bonjour'')]), (7, [(''fr'', ''Halte'')])],
             xl_replies = [(5, [(''fr'', ''Oui''), (''en'', ''Yes'')]), (6, [(''fr'', ''Non'')])] \<rparr>,
         reply_relationships :=
           [(6, \<lparr> rel_parent_message_id = 7, rel_leads_to_message_id = None, rel_context = None \<rparr>)] \<rparr>"

definition orphan_reply_mapper_without_0 :: NPCDialogMapper where
  "orphan_reply_mapper_without_0 =
     orphan_reply_mapper
       \<lparr> xliff_translations :=
           \<lparr> npc_names = [],
             xl_messages = [(7, [(''fr'', ''Halte'')])],
             xl_replies = [(5, [(''fr'', ''Oui''), (''en'', ''Yes'')]), (6, [(''fr'', ''Non'')])] \<rparr> \<rparr>"

definition example_meta :: "string \<Rightarrow> int \<Rightarrow> string \<Rightarrow> NPCMetadata" where
  "example_meta name g url =
     \<lparr> index_id = 1, gender = g, look = ''look'', img_url = url, metadata_id = ''id'',
       meta_name_en = ''Guard'', meta_name_pt = ''Guarda'', meta_name_es = ''Guardia'',
       meta_name_fr = name, meta_name_de = ''Wache'' \<rparr>"

text \<open>
  Two folders without the NPC file and without the metadata file: \<open>folder_of_lists\<close>
  holds the message, reply and dialog files as bare lists (what the original variant
  reads), \<open>folder_of_wrapped_lists\<close> holds them as single-key objects (what the fixed
  variant reads).
\<close>

definition folder_of_lists :: file_system where
  "folder_of_lists =
     \<lparr> npc_json = Missing,
       message_json = BareList [Entity (example_message 100 [])],
       reply_json = BareList [Entity (example_reply 200 100 None)],
       dialog_json = BareList [Entity example_dialog],
       metadata_json = Missing,
       xliff_dir = (\<lambda>_. XMissing) \<rparr>"

definition folder_of_wrapped_lists :: file_system where
  "folder_of_wrapped_lists =
     \<lparr> npc_json = Missing,
       message_json = Wrapped [Entity (example_message 100 [])],
       reply_json = Wrapped [Entity (example_reply 200 100 None)],
       dialog_json = Wrapped [Entity example_dialog],
       metadata_json = Missing,
       xliff_dir = (\<lambda>_. XMissing) \<rparr>"

text \<open>
  \<open>two_image_folder\<close>: the files of the NPCs alice and Zoe, who own one dialog each, with
  two metadata records named "Zoe" that carry different images. \<open>one_image_folder\<close>: the
  same files with two records named "Zoe" of different genders and the same image, and
  one record named "alice".
\<close>

definition two_image_folder :: file_system where
  "two_image_folder =
     \<lparr> npc_json = Wrapped [Entity (example_npc 8 ''alice'' []), Entity (example_npc 7 ''Zoe'' [])],
       message_json = Wrapped [Entity (example_message 100 [])],
       reply_json = Wrapped [Entity (example_reply 200 100 None)],
       dialog_json = Wrapped [Entity example_dialog,
         Entity \<lparr> dialog_id = 2, dialog_npc_id = 8, dialog_message_id = 100, check_order = 0 \<rparr>],
       metadata_json = BareList [Entity (example_meta ''Zoe'' 1 ''a.png''),
                                 Entity (example_meta ''Zoe'' 1 ''b.png'')],
       xliff_dir = (\<lambda>_. XMissing) \<rparr>"

definition one_image_folder :: file_system where
  "one_image_folder =
     two_image_folder
       \<lparr> metadata_json := BareList [Entity (example_meta ''Zoe'' 1 ''a.png''),
                                    Entity (example_meta ''Zoe'' 0 ''a.png''),
                                    Entity (example_meta ''alice'' 1 ''b.png'')] \<rparr>"

subsection \<open>What the translation files say about one entity\<close>

text \<open>
  The notions the merge property is stated with. \<open>unit_key u\<close> is the entry type and the
  entity id of a unit that the loader counts. \<open>units_in_order\<close> lists the units of the
  files that are read, file after file in the order of \<^verbatim>\<open>self.xliff_files\<close>, each with the
  target language of its file. \<open>seen_units ty i\<close> keeps the units of one entity;
  \<open>first_source\<close> is the cleaned source text of the first of them and \<open>last_target lang\<close>
  the target text of the last of them that comes from a file with target language \<open>lang\<close>
  (\<open>None\<close> when no such file holds the entity).
\<close>

definition unit_key :: "trans_unit \<Rightarrow> (string \<times> int) option" where
  "unit_key u =
     (if startswith (unit_id u) ''npc.'' \<and> source_text u \<noteq> None \<and> target_text u \<noteq> None then
        (case split_on CHR ''.'' (unit_id u) of
           _ # entity_id # entry_type # _ \<Rightarrow> map_option (Pair entry_type) (py_int entity_id)
         | _ \<Rightarrow> None)
      else None)"

definition units_of_file :: "(string \<Rightarrow> xliff_file) \<Rightarrow> string \<times> string \<Rightarrow> (string \<times> trans_unit) list" where
  "units_of_file dir entry =
     (case dir (snd entry) of
        XUnits units \<Rightarrow>
          (case target_lang_of (fst entry) of
             None \<Rightarrow> []
           | Some target_lang \<Rightarrow> map (Pair target_lang) units)
      | _ \<Rightarrow> [])"

definition units_in_order ::
  "(string \<Rightarrow> xliff_file) \<Rightarrow> (string \<times> string) list \<Rightarrow> (string \<times> trans_unit) list" where
  "units_in_order dir files = concat (map (units_of_file dir) files)"

definition seen_units ::
  "string \<Rightarrow> int \<Rightarrow> (string \<times> trans_unit) list \<Rightarrow> (string \<times> trans_unit) list" where
  "seen_units ty i units = filter (\<lambda>tu. unit_key (snd tu) = Some (ty, i)) units"

definition first_source :: "(string \<times> trans_unit) list \<Rightarrow> string" where
  "first_source seen =
     (case seen of
        [] \<Rightarrow> []
      | tu # _ \<Rightarrow> (case source_text (snd tu) of None \<Rightarrow> [] | Some src \<Rightarrow> clean_source_text src))"

definition last_target :: "string \<Rightarrow> (string \<times> trans_unit) list \<Rightarrow> string option" where
  "last_target lang seen =
     (case filter (\<lambda>tu. fst tu = lang) seen of
        [] \<Rightarrow> None
      | tu # tus \<Rightarrow> target_text (snd (last (tu # tus))))"

text \<open>\<open>table_step ty\<close>: what one unit, with the target language of its file, does to the
  table of entry type \<open>ty\<close>.\<close>

definition table_step :: "string \<Rightarrow> string \<times> trans_unit \<Rightarrow> xliff_table \<Rightarrow> xliff_table" where
  "table_step ty tu table =
     (case unit_key (snd tu) of
        None \<Rightarrow> table
      | Some key \<Rightarrow>
          if fst key = ty
          then record_translation (snd key) (clean_source_text (the (source_text (snd tu))))
                 (fst tu) (the (target_text (snd tu))) table
          else table)"

text \<open>
  \<open>bonjour_folder\<close>: the structure files and two translation files, English and Spanish,
  each with the unit \<^verbatim>\<open>npc.42.message\<close> (source "Bonjour"); the English file also holds
  a reply whose source carries a \<^verbatim>\<open>[wait_mod_...]\<close> tag and a unit without a numeric id.
\<close>

definition bonjour_folder :: file_system where
  "bonjour_folder =
     \<lparr> npc_json = Missing, message_json = Missing,
       reply_json = Wrapped [Entity (example_reply 200 42 None)],
       dialog_json = Wrapped [Entity example_dialog],
       metadata_json = Missing,
       xliff_dir = (\<lambda>name.
         if name = ''en.xliff'' then
           XUnits [\<lparr> unit_id = ''npc.42.message'', source_text = Some ''Bonjour'',
                      target_text = Some ''Hello'' \<rparr>,
                   \<lparr> unit_id = ''npc.200.reply'', source_text = Some ''[wait_mod_Br9100] Oui '',
                      target_text = Some ''Yes'' \<rparr>,
                   \<lparr> unit_id = ''npc.x.message'', source_text = Some ''Rien'',
                      target_text = Some ''Nothing'' \<rparr>]
         else if name = ''es.xliff'' then
           XUnits [\<lparr> unit_id = ''npc.42.message'', source_text = Some ''Bonjour'',
                      target_text = Some ''Hola'' \<rparr>]
         else XMissing) \<rparr>"

definition bonjour_files :: "(string, string) dict" where
  "bonjour_files = [(''fr-en'', ''en.xliff''), (''fr-es'', ''es.xliff''), (''fr-pt'', ''pt.xliff'')]"

section \<open>Verified properties\<close>

subsection \<open>The dialog tree renderer\<close>

declare generate_dialog_tree.simps [simp del]

lemma data_message_id_attrs [simp]:
  "data_message_id (message_node_attrs message level) = message_id message"
  by (simp add: message_node_attrs_def)

lemma generate_dialog_tree_visited:
  "message_id message \<in> visited \<Longrightarrow>
     generate_dialog_tree msgs message dialog level visited = MessageRef (message_id message)"
  by (simp add: generate_dialog_tree.simps)

lemma generate_dialog_tree_fresh:
  "message_id message \<notin> visited \<Longrightarrow>
     generate_dialog_tree msgs message dialog level visited =
       MessageDiv (message_node_attrs message level)
         (map (\<lambda>reply.
                 ReplyDiv (reply_node_attrs reply level)
                   (case if_truthy (leads_to_message_id reply) of
                      None \<Rightarrow> None
                    | Some next_id \<Rightarrow>
                        (case map_of msgs next_id of
                           None \<Rightarrow> None
                         | Some next_message \<Rightarrow>
                             Some (generate_dialog_tree msgs next_message dialog
                                     (level + 2) (insert (message_id message) visited)))))
              (replies message))"
  by (subst generate_dialog_tree.simps) simp

lemma generate_dialog_tree_terminates:
  "generate_dialog_tree_dom (msgs, message, dialog, level, visited)"
proof (induction msgs message dialog level visited rule: generate_dialog_tree.induct)
  case (1 msgs message dialog level visited)
  show ?case
  proof (rule accpI)
    fix y
    assume "generate_dialog_tree_rel y (msgs, message, dialog, level, visited)"
    then show "generate_dialog_tree_dom y"
      by (cases rule: generate_dialog_tree_rel.cases) (auto intro: 1)
  qed
qed

lemma no_duplicate_generate:
  "no_duplicate_on_path visited (generate_dialog_tree msgs message dialog level visited)"
proof (induction msgs message dialog level visited rule: generate_dialog_tree.induct)
  case (1 msgs message dialog level visited)
  show ?case
  proof (cases "message_id message \<in> visited")
    case True
    then show ?thesis by (simp add: generate_dialog_tree_visited)
  next
    case False
    then show ?thesis
      using 1 by (auto simp: generate_dialog_tree_fresh list_all_iff split: option.splits)
  qed
qed

lemma markers_generate:
  "markers_only_for_ancestors visited (generate_dialog_tree msgs message dialog level visited)"
proof (induction msgs message dialog level visited rule: generate_dialog_tree.induct)
  case (1 msgs message dialog level visited)
  show ?case
  proof (cases "message_id message \<in> visited")
    case True
    then show ?thesis by (simp add: generate_dialog_tree_visited)
  next
    case False
    then show ?thesis
      using 1 by (auto simp: generate_dialog_tree_fresh list_all_iff split: option.splits)
  qed
qed

lemma depths_generate:
  "depths_from level (generate_dialog_tree msgs message dialog level visited)"
proof (induction msgs message dialog level visited rule: generate_dialog_tree.induct)
  case (1 msgs message dialog level visited)
  show ?case
  proof (cases "message_id message \<in> visited")
    case True
    then show ?thesis by (simp add: generate_dialog_tree_visited)
  next
    case False
    have step: "level + 1 + 1 = level + 2"
      by simp
    from False show ?thesis
      using 1
      by (auto simp: generate_dialog_tree_fresh list_all_iff message_node_attrs_def
            reply_node_attrs_def step split: option.splits)
  qed
qed




lemma reaches_trans: "reaches msgs y x \<Longrightarrow> reaches msgs m y \<Longrightarrow> reaches msgs m x"
  by (induction rule: reaches.induct) (auto intro: reaches.intros)

lemma generate_agree:
  "(\<And>x. reaches msgs message x \<Longrightarrow> (message_id x \<in> visited \<longleftrightarrow> message_id x \<in> visited'))
   \<Longrightarrow> generate_dialog_tree msgs message dialog level visited
       = generate_dialog_tree msgs message dialog level visited'"
proof (induction msgs message dialog level visited arbitrary: visited'
       rule: generate_dialog_tree.induct)
  case (1 msgs message dialog level visited)
  have self: "message_id message \<in> visited \<longleftrightarrow> message_id message \<in> visited'"
    using 1(2) reaches_self by blast
  show ?case
  proof (cases "message_id message \<in> visited")
    case True
    with self show ?thesis by (simp add: generate_dialog_tree_visited)
  next
    case False
    have sub: "generate_dialog_tree msgs next_message dialog (level + 2)
                 (insert (message_id message) visited)
             = generate_dialog_tree msgs next_message dialog (level + 2)
                 (insert (message_id message) visited')"
      if "reply \<in> set (replies message)" "if_truthy (leads_to_message_id reply) = Some next_id"
         "map_of msgs next_id = Some next_message" for reply next_id next_message
    proof (rule 1(1)[OF False that])
      fix x
      assume "reaches msgs next_message x"
      moreover have "reaches msgs message next_message"
        using reaches_step[OF reaches_self that] .
      ultimately have "reaches msgs message x"
        by (rule reaches_trans)
      then show "(message_id x \<in> insert (message_id message) visited)
               = (message_id x \<in> insert (message_id message) visited')"
        using 1(2) by simp
    qed
    show ?thesis
      using False self sub
      by (simp add: generate_dialog_tree_fresh split: option.splits cong: map_cong)
  qed
qed

lemma siblings_generate:
  assumes "message_id message \<notin> visited"
  shows "\<exists>rs. generate_dialog_tree msgs message dialog level visited
                = MessageDiv (message_node_attrs message level) rs
            \<and> length rs = length (replies message)
            \<and> (\<forall>i next_id next_message. i < length rs
                 \<and> if_truthy (leads_to_message_id (replies message ! i)) = Some next_id
                 \<and> map_of msgs next_id = Some next_message
                 \<longrightarrow> rs ! i = ReplyDiv (reply_node_attrs (replies message ! i) level)
                       (Some (generate_dialog_tree msgs next_message dialog (level + 2)
                                (insert (message_id message) visited))))"
  using assms by (simp add: generate_dialog_tree_fresh)











text \<open>
  Claim C6. The visited set is scoped to the path. Every reference marker of a rendered
  tree shows the id of a full message node above it on its own path (or an id of the set
  the render started with), and no full message node repeats such an id. The render of a
  message does not depend on visited ids that the message cannot reach, so a message
  reached through two sibling branches is rendered alike in both. Every reply of a message
  that is rendered in full passes the same set, the incoming set with the id of that
  message added, to its continuation message: no reply sees what a sibling added.
\<close>

theorem visited_is_path_scoped:
  "markers_only_for_ancestors visited (generate_dialog_tree msgs message dialog level visited)
   \<and> no_duplicate_on_path visited (generate_dialog_tree msgs message dialog level visited)
   \<and> ((\<forall>x. reaches msgs message x \<longrightarrow> (message_id x \<in> visited \<longleftrightarrow> message_id x \<in> visited'))
        \<longrightarrow> generate_dialog_tree msgs message dialog level visited
            = generate_dialog_tree msgs message dialog level visited')
   \<and> (message_id message \<notin> visited \<longrightarrow>
        (\<exists>rs. generate_dialog_tree msgs message dialog level visited
                = MessageDiv (message_node_attrs message level) rs
            \<and> length rs = length (replies message)
            \<and> (\<forall>i next_id next_message. i < length rs
                 \<and> if_truthy (leads_to_message_id (replies message ! i)) = Some next_id
                 \<and> map_of msgs next_id = Some next_message
                 \<longrightarrow> rs ! i = ReplyDiv (reply_node_attrs (replies message ! i) level)
                       (Some (generate_dialog_tree msgs next_message dialog (level + 2)
                                (insert (message_id message) visited))))))"
proof (intro conjI impI)
  show "markers_only_for_ancestors visited (generate_dialog_tree msgs message dialog level visited)"
    by (rule markers_generate)
  show "no_duplicate_on_path visited (generate_dialog_tree msgs message dialog level visited)"
    by (rule no_duplicate_generate)
next
  assume "\<forall>x. reaches msgs message x \<longrightarrow> (message_id x \<in> visited \<longleftrightarrow> message_id x \<in> visited')"
  then show "generate_dialog_tree msgs message dialog level visited
      = generate_dialog_tree msgs message dialog level visited'"
    by (intro generate_agree) blast
next
  assume "message_id message \<notin> visited"
  then show "\<exists>rs. generate_dialog_tree msgs message dialog level visited
                = MessageDiv (message_node_attrs message level) rs
            \<and> length rs = length (replies message)
            \<and> (\<forall>i next_id next_message. i < length rs
                 \<and> if_truthy (leads_to_message_id (replies message ! i)) = Some next_id
                 \<and> map_of msgs next_id = Some next_message
                 \<longrightarrow> rs ! i = ReplyDiv (reply_node_attrs (replies message ! i) level)
                       (Some (generate_dialog_tree msgs next_message dialog (level + 2)
                                (insert (message_id message) visited))))"
    by (rule siblings_generate)
qed

text \<open>
  On the diamond graph message 4 is rendered alike whether the path came through
  message 2 or through message 3, and the render of the entry shows it in full under
  both replies of message 1, with no marker anywhere.
\<close>

theorem visited_is_path_scoped_witness:
  "generate_dialog_tree diamond_messages (example_message 4 []) example_dialog 4 {1, 2}
     = generate_dialog_tree diamond_messages (example_message 4 []) example_dialog 4 {1, 3}
   \<and> generate_dialog_tree diamond_messages diamond_entry example_dialog 0 {}
       = MessageDiv (message_node_attrs diamond_entry 0)
           [ReplyDiv (reply_node_attrs (example_reply 10 1 (Some 2)) 0)
              (Some (MessageDiv
                 (message_node_attrs (example_message 2 [example_reply 20 2 (Some 4)]) 2)
                 [ReplyDiv (reply_node_attrs (example_reply 20 2 (Some 4)) 2)
                    (Some (MessageDiv (message_node_attrs (example_message 4 []) 4) []))])),
            ReplyDiv (reply_node_attrs (example_reply 11 1 (Some 3)) 0)
              (Some (MessageDiv
                 (message_node_attrs (example_message 3 [example_reply 30 3 (Some 4)]) 2)
                 [ReplyDiv (reply_node_attrs (example_reply 30 3 (Some 4)) 2)
                    (Some (MessageDiv (message_node_attrs (example_message 4 []) 4) []))]))]"
proof -
  have only: "x = example_message 4 []"
    if "reaches diamond_messages (example_message 4 []) x" for x
    using that by (induction rule: reaches.induct) (simp_all add: example_message_def)
  have agree: "\<forall>x. reaches diamond_messages (example_message 4 []) x
      \<longrightarrow> (message_id x \<in> {1, 2} \<longleftrightarrow> message_id x \<in> {1, 3})"
  proof (intro allI impI)
    fix x
    assume "reaches diamond_messages (example_message 4 []) x"
    then have "x = example_message 4 []"
      by (rule only)
    then show "message_id x \<in> {1, 2} \<longleftrightarrow> message_id x \<in> {1, 3}"
      by (simp add: example_message_def)
  qed
  have same: "generate_dialog_tree diamond_messages (example_message 4 []) example_dialog 4 {1, 2}
     = generate_dialog_tree diamond_messages (example_message 4 []) example_dialog 4 {1, 3}"
    using visited_is_path_scoped[of "{1, 2}" diamond_messages "example_message 4 []"
        example_dialog 4 "{1, 3}"] agree
    by blast
  have tree: "generate_dialog_tree diamond_messages diamond_entry example_dialog 0 {}
       = MessageDiv (message_node_attrs diamond_entry 0)
           [ReplyDiv (reply_node_attrs (example_reply 10 1 (Some 2)) 0)
              (Some (MessageDiv
                 (message_node_attrs (example_message 2 [example_reply 20 2 (Some 4)]) 2)
                 [ReplyDiv (reply_node_attrs (example_reply 20 2 (Some 4)) 2)
                    (Some (MessageDiv (message_node_attrs (example_message 4 []) 4) []))])),
            ReplyDiv (reply_node_attrs (example_reply 11 1 (Some 3)) 0)
              (Some (MessageDiv
                 (message_node_attrs (example_message 3 [example_reply 30 3 (Some 4)]) 2)
                 [ReplyDiv (reply_node_attrs (example_reply 30 3 (Some 4)) 2)
                    (Some (MessageDiv (message_node_attrs (example_message 4 []) 4) []))]))]"
    by (simp add: generate_dialog_tree.simps diamond_messages_def diamond_entry_def
          example_message_def example_reply_def if_truthy_def)
  from same tree show ?thesis
    by (rule conjI)
qed

lemma dialog_containers_depths:
  "list_all (\<lambda>c. depths_from 0 (dialog_tree c)) (dialog_containers msgs ds)"
  by (induction ds) (auto simp: depths_generate split: option.splits)

text \<open>
  Claim C7. In a rendered tree the root message stores the depth the render was called
  with, every reply stores the depth of its message plus 1 and every continuation message
  the depth of its reply plus 1, so one turn adds 2; the entry message of every dialog of
  a card is rendered at depth 0. The depth class of a node (its visual level) is the
  stored depth capped at 15, while the stored depth itself is not capped.
\<close>

theorem depth_attributes:
  "depths_from level (generate_dialog_tree msgs message dialog level visited)
   \<and> list_all (\<lambda>c. depths_from 0 (dialog_tree c)) (card_dialogs (generate_npc_card self npc))
   \<and> message_data_depth (message_node_attrs message level) = level
   \<and> message_depth_class (message_node_attrs message level) = min level 15
   \<and> reply_data_depth (reply_node_attrs reply level) = level + 1
   \<and> reply_depth_class (reply_node_attrs reply level) = min (level + 1) 15"
proof (intro conjI)
  show "depths_from level (generate_dialog_tree msgs message dialog level visited)"
    by (rule depths_generate)
  show "list_all (\<lambda>c. depths_from 0 (dialog_tree c)) (card_dialogs (generate_npc_card self npc))"
    by (simp add: generate_npc_card_def dialog_containers_depths)
qed (simp_all add: message_node_attrs_def reply_node_attrs_def max_level_def)

text \<open>
  The cyclic graph rendered from depth 14: the stored depths are 14, 15, 16 and 17, the
  depth classes 14, 15, 15 and 15, and the depth badge appears from depth 16 on.
\<close>

theorem depth_attributes_witness:
  "depths_from 14 (generate_dialog_tree cyclic_messages cyclic_entry example_dialog 14 {})
   \<and> generate_dialog_tree cyclic_messages cyclic_entry example_dialog 14 {}
       = MessageDiv
           \<lparr> message_depth_class = 14, data_message_id = 100, message_data_depth = 14,
             message_depth_badge = None,
             message_lang_rows = [Shown ''Halte'', Shown ''Halt'', NullValue, NullValue] \<rparr>
           [ReplyDiv
              \<lparr> reply_depth_class = 15, data_reply_id = 200, reply_data_depth = 15,
                reply_depth_badge = None, reply_arrow = Some 101,
                reply_lang_rows = [Shown ''Oui'', Shown ''Yes'', NullValue, NullValue] \<rparr>
              (Some (MessageDiv
                 \<lparr> message_depth_class = 15, data_message_id = 101, message_data_depth = 16,
                   message_depth_badge = Some 16,
                   message_lang_rows = [Shown ''Halte'', Shown ''Halt'', NullValue, NullValue] \<rparr>
                 [ReplyDiv
                    \<lparr> reply_depth_class = 15, data_reply_id = 201, reply_data_depth = 17,
                      reply_depth_badge = Some 17, reply_arrow = Some 100,
                      reply_lang_rows = [Shown ''Oui'', Shown ''Yes'', NullValue, NullValue] \<rparr>
                    (Some (MessageRef 100))]))]"
proof -
  have tree: "generate_dialog_tree cyclic_messages cyclic_entry example_dialog 14 {}
       = MessageDiv
           \<lparr> message_depth_class = 14, data_message_id = 100, message_data_depth = 14,
             message_depth_badge = None,
             message_lang_rows = [Shown ''Halte'', Shown ''Halt'', NullValue, NullValue] \<rparr>
           [ReplyDiv
              \<lparr> reply_depth_class = 15, data_reply_id = 200, reply_data_depth = 15,
                reply_depth_badge = None, reply_arrow = Some 101,
                reply_lang_rows = [Shown ''Oui'', Shown ''Yes'', NullValue, NullValue] \<rparr>
              (Some (MessageDiv
                 \<lparr> message_depth_class = 15, data_message_id = 101, message_data_depth = 16,
                   message_depth_badge = Some 16,
                   message_lang_rows = [Shown ''Halte'', Shown ''Halt'', NullValue, NullValue] \<rparr>
                 [ReplyDiv
                    \<lparr> reply_depth_class = 15, data_reply_id = 201, reply_data_depth = 17,
                      reply_depth_badge = Some 17, reply_arrow = Some 100,
                      reply_lang_rows = [Shown ''Oui'', Shown ''Yes'', NullValue, NullValue] \<rparr>
                    (Some (MessageRef 100))]))]"
    by (simp add: generate_dialog_tree.simps cyclic_messages_def cyclic_entry_def
          example_message_def example_reply_def if_truthy_def message_node_attrs_def
          reply_node_attrs_def max_level_def format_text_with_null_check_def)
  from depth_attributes[of 14 cyclic_messages cyclic_entry example_dialog "{}"]
  have "depths_from 14 (generate_dialog_tree cyclic_messages cyclic_entry example_dialog 14 {})"
    by blast
  then show ?thesis
    using tree by (rule conjI)
qed

lemma card_title_generate [simp]: "card_title (generate_npc_card self npc) = name_fr npc"
  by (simp add: generate_npc_card_def)

subsection \<open>The document\<close>

text \<open>
  Claim C10. The cards of the generated document are in ascending order of the lowercased
  French name of their NPC, and they are exactly the cards of the NPCs whose dialog list
  is not empty: an NPC without dialogs contributes no card.
\<close>

theorem npc_cards_sorted_and_filtered:
  "sorted (map (\<lambda>c. lower (card_title c)) (npc_cards (generate_html_content self)))
   \<and> mset (npc_cards (generate_html_content self))
       = image_mset (generate_npc_card self)
           (filter_mset (\<lambda>npc. dialogs npc \<noteq> []) (mset (map snd (npcs self))))"
proof
  have "sorted (map (\<lambda>x. lower (name_fr x)) (sorted_npcs self))"
    unfolding sorted_npcs_def by (rule sorted_sort_key)
  then have "sorted (map (\<lambda>x. lower (name_fr x))
                 (filter (\<lambda>npc. dialogs npc \<noteq> []) (sorted_npcs self)))"
    by (rule sorted_filter)
  then show "sorted (map (\<lambda>c. lower (card_title c)) (npc_cards (generate_html_content self)))"
    by (simp add: generate_html_content_def comp_def)
next
  show "mset (npc_cards (generate_html_content self))
       = image_mset (generate_npc_card self)
           (filter_mset (\<lambda>npc. dialogs npc \<noteq> []) (mset (map snd (npcs self))))"
    by (simp add: generate_html_content_def sorted_npcs_def)
qed

text \<open>
  The NPCs Zoe, alice and Bob (who has no dialog) yield the cards of alice and Zoe, in
  this order.
\<close>

theorem npc_cards_sorted_and_filtered_witness:
  "map card_title (npc_cards (generate_html_content example_mapper)) = [''alice'', ''Zoe'']
   \<and> sorted (map (\<lambda>c. lower (card_title c)) (npc_cards (generate_html_content example_mapper)))"
proof -
  have "map card_title (npc_cards (generate_html_content example_mapper)) = [''alice'', ''Zoe'']"
    by code_simp
  then show ?thesis
    using npc_cards_sorted_and_filtered[of example_mapper] by blast
qed

subsection \<open>The relationship builder and the merge\<close>

lemma map_of_link_reply:
  "map_of (link_reply r ms) k =
     (if parent_message_id r = k
      then map_option (\<lambda>m. m\<lparr>replies := replies m @ [r]\<rparr>) (map_of ms k)
      else map_of ms k)"
  by (auto simp: link_reply_def map_of_map_entry split: option.splits)

lemma map_of_fold_link_reply:
  "map_of (fold link_reply rs ms) k =
     map_option (\<lambda>m. m\<lparr>replies := replies m @ filter (\<lambda>r. parent_message_id r = k) rs\<rparr>)
       (map_of ms k)"
proof (induction rs arbitrary: ms)
  case Nil
  show ?case by (simp add: option.map_ident)
next
  case (Cons r rs)
  show ?case
    by (cases "map_of ms k") (simp_all add: Cons map_of_link_reply)
qed

lemma map_of_fold_update_other:
  "k \<notin> fst ` set xs \<Longrightarrow> map_of (fold (\<lambda>(i, tr). AList.update i (g i tr)) xs d) k = map_of d k"
  by (induction xs arbitrary: d) (auto simp: update_conv')

lemma map_of_fold_update_key:
  "k \<in> fst ` set xs \<Longrightarrow>
     \<exists>tr. (k, tr) \<in> set xs \<and> map_of (fold (\<lambda>(i, tr). AList.update i (g i tr)) xs d) k = Some (g k tr)"
proof (induction xs arbitrary: d)
  case Nil
  then show ?case by simp
next
  case (Cons x xs)
  show ?case
  proof (cases "k \<in> fst ` set xs")
    case True
    from Cons.IH[OF True] show ?thesis by (auto simp: case_prod_beta)
  next
    case False
    with Cons.prems have "fst x = k" by auto
    with False show ?thesis
      by (cases x) (auto simp: map_of_fold_update_other update_conv')
  qed
qed

lemma merged_messages_no_replies:
  assumes "messages self = []"
    and "map_of (messages (merge_xliff_with_structure self)) k = Some m"
  shows "replies m = []"
proof (cases "k \<in> fst ` set (xl_messages (xliff_translations self))")
  case True
  from map_of_fold_update_key[OF True, of message_of_translations "[]"] assms
  show ?thesis
    by (auto simp: merge_xliff_with_structure_def message_of_translations_def)
next
  case False
  from map_of_fold_update_other[OF False, of message_of_translations "[]"] assms
  show ?thesis
    by (simp add: merge_xliff_with_structure_def)
qed

text \<open>
  Claim C9. In translation-file mode of the fixed variant a reply that has a
  translation entry and no structural record is created all the same, with parent
  message id 0 and no continuation. The relationship builder then puts it under the
  message stored with id 0 and under no other message: when no message has id 0 it
  appears under no message.
\<close>

theorem reply_without_structure_defaults:
  assumes fresh: "messages self = []"
    and translated: "rid \<in> fst ` set (xl_replies (xliff_translations self))"
    and no_structure: "map_of (reply_relationships self) rid = None"
  shows "\<exists>r. map_of (mapper_replies (merge_xliff_with_structure self)) rid = Some r
           \<and> reply_id r = rid \<and> parent_message_id r = 0 \<and> leads_to_message_id r = None
           \<and> (\<forall>k m. map_of (messages (build_relationships (merge_xliff_with_structure self))) k
                       = Some m
                 \<longrightarrow> (r \<in> set (replies m) \<longleftrightarrow> k = 0))"
proof -
  let ?merged = "merge_xliff_with_structure self"
  from map_of_fold_update_key[OF translated,
      of "reply_of_translations (reply_relationships self)" "mapper_replies self"]
  obtain tr where look: "map_of (mapper_replies ?merged) rid
      = Some (reply_of_translations (reply_relationships self) rid tr)"
    by (auto simp: merge_xliff_with_structure_def)
  let ?r = "reply_of_translations (reply_relationships self) rid tr"
  have fields: "reply_id ?r = rid" "parent_message_id ?r = 0" "leads_to_message_id ?r = None"
    using no_structure by (simp_all add: reply_of_translations_def)
  have listed: "?r \<in> set (map snd (mapper_replies ?merged))"
    using map_of_SomeD[OF look] by force
  have under: "?r \<in> set (replies m) \<longleftrightarrow> k = 0"
    if "map_of (messages (build_relationships ?merged)) k = Some m" for k m
  proof -
    from that obtain m0 where m0: "map_of (messages ?merged) k = Some m0"
      and m: "m = m0\<lparr>replies := replies m0
                 @ filter (\<lambda>r. parent_message_id r = k) (map snd (mapper_replies ?merged))\<rparr>"
      by (auto simp: build_relationships_def map_of_fold_link_reply)
    from merged_messages_no_replies[OF fresh m0] have "replies m0 = []" .
    with m listed fields(2) show ?thesis
      by auto
  qed
  from look fields under show ?thesis
    by blast
qed

text \<open>
  Reply 5 has a translation and no structural record: it is created with parent 0 and
  appears under message 0; without a message 0 it appears under no message.
\<close>

theorem reply_without_structure_defaults_witness:
  "map_of (mapper_replies (merge_xliff_with_structure orphan_reply_mapper)) 5
     = Some \<lparr> reply_id = 5, reply_text_fr = ''Oui'', reply_text_en = Some ''Yes'',
              reply_text_es = None, reply_text_pt = None, reply_context = None,
              parent_message_id = 0, leads_to_message_id = None \<rparr>
   \<and> map (\<lambda>(k, m). (k, map reply_id (replies m)))
         (messages (build_relationships (merge_xliff_with_structure orphan_reply_mapper)))
       = [(0, [5]), (7, [6])]
   \<and> map (\<lambda>(k, m). (k, map reply_id (replies m)))
         (messages (build_relationships (merge_xliff_with_structure orphan_reply_mapper_without_0)))
       = [(7, [6])]"
proof -
  have fresh: "messages orphan_reply_mapper = []"
    by (simp add: orphan_reply_mapper_def init_mapper_def)
  have translated: "5 \<in> fst ` set (xl_replies (xliff_translations orphan_reply_mapper))"
    by (simp add: orphan_reply_mapper_def)
  have no_structure: "map_of (reply_relationships orphan_reply_mapper) 5 = None"
    by (simp add: orphan_reply_mapper_def)
  from reply_without_structure_defaults[OF fresh translated no_structure]
  obtain r where "map_of (mapper_replies (merge_xliff_with_structure orphan_reply_mapper)) 5 = Some r"
    and "parent_message_id r = 0"
    by blast
  moreover have "map_of (mapper_replies (merge_xliff_with_structure orphan_reply_mapper)) 5
     = Some \<lparr> reply_id = 5, reply_text_fr = ''Oui'', reply_text_en = Some ''Yes'',
              reply_text_es = None, reply_text_pt = None, reply_context = None,
              parent_message_id = 0, leads_to_message_id = None \<rparr>"
    by code_simp
  moreover have "map (\<lambda>(k, m). (k, map reply_id (replies m)))
         (messages (build_relationships (merge_xliff_with_structure orphan_reply_mapper)))
       = [(0, [5]), (7, [6])]"
    by code_simp
  moreover have "map (\<lambda>(k, m). (k, map reply_id (replies m)))
         (messages (build_relationships (merge_xliff_with_structure orphan_reply_mapper_without_0)))
       = [(7, [6])]"
    by code_simp
  ultimately show ?thesis
    by blast
qed

subsection \<open>The metadata matcher\<close>

lemma group_step:
  assumes "\<And>name. map_of acc name
             = (if filter (\<lambda>m. meta_name_fr m = name) pre = [] then None
                else Some (filter (\<lambda>m. meta_name_fr m = name) pre))"
  shows "map_of (fold (\<lambda>meta by_name.
             AList.update (meta_name_fr meta)
               ((case map_of by_name (meta_name_fr meta) of None \<Rightarrow> [] | Some g \<Rightarrow> g) @ [meta])
               by_name) ms acc) name
         = (if filter (\<lambda>m. meta_name_fr m = name) (pre @ ms) = [] then None
            else Some (filter (\<lambda>m. meta_name_fr m = name) (pre @ ms)))"
  using assms
proof (induction ms arbitrary: acc pre)
  case Nil
  then show ?case by simp
next
  case (Cons meta ms)
  have "map_of (AList.update (meta_name_fr meta)
               ((case map_of acc (meta_name_fr meta) of None \<Rightarrow> [] | Some g \<Rightarrow> g) @ [meta]) acc) n
        = (if filter (\<lambda>m. meta_name_fr m = n) (pre @ [meta]) = [] then None
           else Some (filter (\<lambda>m. meta_name_fr m = n) (pre @ [meta])))" for n
    by (simp add: update_conv' Cons.prems)
  from Cons.IH[of _ "pre @ [meta]", OF this] show ?case
    by simp
qed

lemma map_of_group_metadata:
  "map_of (group_metadata ms) name
     = (if filter (\<lambda>m. meta_name_fr m = name) ms = [] then None
        else Some (filter (\<lambda>m. meta_name_fr m = name) ms))"
  unfolding group_metadata_def using group_step[of "[]" "[]" ms name] by simp

lemma names_match_original_update [simp]:
  "names_match_original (n\<lparr>genders := gs, img_urls := us\<rparr>) meta = names_match_original n meta"
  by (simp add: names_match_original_def)

lemma match_npc_original_fold:
  "match_npc_original ms npc
     = npc\<lparr> genders := genders npc @ map gender (filter (names_match_original npc) ms),
            img_urls := img_urls npc @ map img_url (filter (names_match_original npc) ms) \<rparr>"
  unfolding match_npc_original_def
proof (induction ms arbitrary: npc)
  case Nil
  show ?case by simp
next
  case (Cons meta ms)
  show ?case by (simp add: Cons)
qed

text \<open>
  Claim C3, as amended. The fixed variant associates an NPC with the metadata records
  whose French name equals the NPC's French name as it stands, without trimming or
  lowercasing; an NPC with such a record holds every gender and every image URL of these
  records exactly once, and an NPC without one is left as it was loaded. The original
  variant associates an NPC with the records whose French name equals its own after
  lowercasing and trimming, both names being non-empty, and appends the gender and the
  image URL of each such record, without removing duplicates.
\<close>

theorem metadata_matching:
  "(filter (\<lambda>meta. meta_name_fr meta = name_fr npc) ms = []
      \<longrightarrow> match_npc (group_metadata ms) npc = npc)
   \<and> (filter (\<lambda>meta. meta_name_fr meta = name_fr npc) ms \<noteq> []
      \<longrightarrow> set (genders (match_npc (group_metadata ms) npc))
            = gender ` {meta \<in> set ms. meta_name_fr meta = name_fr npc}
        \<and> distinct (genders (match_npc (group_metadata ms) npc))
        \<and> set (img_urls (match_npc (group_metadata ms) npc))
            = img_url ` {meta \<in> set ms. meta_name_fr meta = name_fr npc}
        \<and> distinct (img_urls (match_npc (group_metadata ms) npc)))
   \<and> genders (match_npc_original ms npc)
       = genders npc @ map gender (filter (names_match_original npc) ms)
   \<and> img_urls (match_npc_original ms npc)
       = img_urls npc @ map img_url (filter (names_match_original npc) ms)"
proof -
  let ?matches = "filter (\<lambda>meta. meta_name_fr meta = name_fr npc) ms"
  have unmatched: "match_npc (group_metadata ms) npc = npc" if "?matches = []"
  proof -
    from that have "map_of (group_metadata ms) (name_fr npc) = None"
      by (simp add: map_of_group_metadata)
    then show ?thesis
      by (simp add: match_npc_def match_npc_listed_def)
  qed
  have matched: "match_npc (group_metadata ms) npc
      = npc\<lparr> genders := remdups (map gender ?matches),
                 img_urls := remdups (map img_url ?matches) \<rparr>" if "?matches \<noteq> []"
  proof -
    from that have "map_of (group_metadata ms) (name_fr npc) = Some ?matches"
      by (simp add: map_of_group_metadata)
    then show ?thesis
      by (simp add: match_npc_def match_npc_listed_def)
  qed
  have group: "set ?matches = {meta \<in> set ms. meta_name_fr meta = name_fr npc}"
    by auto
  have once: "set (genders (match_npc (group_metadata ms) npc))
        = gender ` {meta \<in> set ms. meta_name_fr meta = name_fr npc}
      \<and> distinct (genders (match_npc (group_metadata ms) npc))
      \<and> set (img_urls (match_npc (group_metadata ms) npc))
        = img_url ` {meta \<in> set ms. meta_name_fr meta = name_fr npc}
      \<and> distinct (img_urls (match_npc (group_metadata ms) npc))" if "?matches \<noteq> []"
    using matched[OF that] group by simp
  have original: "genders (match_npc_original ms npc)
       = genders npc @ map gender (filter (names_match_original npc) ms)"
    "img_urls (match_npc_original ms npc)
       = img_urls npc @ map img_url (filter (names_match_original npc) ms)"
    by (simp_all add: match_npc_original_fold)
  from unmatched once original show ?thesis
    by blast
qed

text \<open>
  The claim as stated fails in both variants. In the fixed variant the names "Garde" and
  " garde" are equal after trimming and lowercasing, yet the NPC gets no gender. In the
  original variant two matching records of gender 1 leave the NPC with the gender twice.
\<close>

theorem metadata_matching_counterexample:
  "strip (lower (name_fr (example_npc 7 ''Garde'' [])))
     = strip (lower (meta_name_fr (example_meta '' garde'' 1 ''u.png'')))
   \<and> genders (match_npc (group_metadata [example_meta '' garde'' 1 ''u.png''])
                (example_npc 7 ''Garde'' [])) = []
   \<and> genders (match_npc_original
                [example_meta ''Garde'' 1 ''u.png'', example_meta ''garde'' 1 ''u.png'']
                (example_npc 7 ''Garde'' [])) = [1, 1]"
  by code_simp

text \<open>
  Two records named "Garde" with the genders 1 and 0 and the same image give the NPC
  "Garde" of the fixed variant both genders once and the image once; a record of another
  name changes nothing; the original variant matches " GARDE " with "Garde".
\<close>

theorem metadata_matching_witness:
  "set (genders (match_npc (group_metadata
              [example_meta ''Garde'' 1 ''u.png'', example_meta ''Autre'' 2 ''v.png'',
               example_meta ''Garde'' 0 ''u.png''])
            (example_npc 7 ''Garde'' []))) = {0, 1}
   \<and> length (genders (match_npc (group_metadata
              [example_meta ''Garde'' 1 ''u.png'', example_meta ''Autre'' 2 ''v.png'',
               example_meta ''Garde'' 0 ''u.png''])
            (example_npc 7 ''Garde'' []))) = 2
   \<and> img_urls (match_npc (group_metadata
              [example_meta ''Garde'' 1 ''u.png'', example_meta ''Autre'' 2 ''v.png'',
               example_meta ''Garde'' 0 ''u.png''])
            (example_npc 7 ''Garde'' [])) = [''u.png'']
   \<and> match_npc (group_metadata [example_meta ''Autre'' 2 ''v.png'']) (example_npc 7 ''Garde'' [])
       = example_npc 7 ''Garde'' []
   \<and> genders (match_npc_original
               [example_meta '' GARDE '' 1 ''u.png'', example_meta ''Autre'' 2 ''v.png'']
               (example_npc 7 ''Garde'' [])) = [1]"
proof -
  let ?ms = "[example_meta ''Garde'' 1 ''u.png'', example_meta ''Autre'' 2 ''v.png'',
               example_meta ''Garde'' 0 ''u.png'']"
  let ?gs = "genders (match_npc (group_metadata ?ms) (example_npc 7 ''Garde'' []))"
  have matched: "filter (\<lambda>meta. meta_name_fr meta = name_fr (example_npc 7 ''Garde'' [])) ?ms \<noteq> []"
    by (simp add: example_meta_def example_npc_def)
  have group: "gender ` {meta \<in> set ?ms. meta_name_fr meta = name_fr (example_npc 7 ''Garde'' [])}
      = {0, 1}"
    by code_simp
  from matched metadata_matching[of "example_npc 7 ''Garde'' []" ?ms]
  have once: "set ?gs = gender ` {meta \<in> set ?ms. meta_name_fr meta = name_fr (example_npc 7 ''Garde'' [])}"
    "distinct ?gs"
    by blast+
  from once(1) group have values_of: "set ?gs = {0, 1}"
    by simp
  have "length ?gs = card (set ?gs)"
    using once(2) by (simp add: distinct_card)
  with values_of have twice: "length ?gs = 2"
    by simp
  have "img_urls (match_npc (group_metadata ?ms) (example_npc 7 ''Garde'' [])) = [''u.png'']"
    by code_simp
  moreover have "match_npc (group_metadata [example_meta ''Autre'' 2 ''v.png'']) (example_npc 7 ''Garde'' [])
       = example_npc 7 ''Garde'' []"
    by code_simp
  moreover have "genders (match_npc_original
               [example_meta '' GARDE '' 1 ''u.png'', example_meta ''Autre'' 2 ''v.png'']
               (example_npc 7 ''Garde'' [])) = [1]"
    by code_simp
  ultimately show ?thesis
    using values_of twice by blast
qed

subsection \<open>The document of two loads\<close>

text \<open>
  Two loads of the same files run the matcher on the same state; they differ at most in
  the order in which \<^verbatim>\<open>list(set(...))\<close> lists the image URLs of an NPC, \<open>u1\<close> in one run
  and \<open>u2\<close> in the other (the genders are integers and are listed alike, by \<open>g\<close>).
\<close>

lemma lists_a_set_remdups: "lists_a_set remdups"
  by (simp add: lists_a_set_def)

lemma lists_a_set_rev_remdups: "lists_a_set (rev \<circ> remdups)"
  by (simp add: lists_a_set_def)

lemma insort_key_map:
  assumes "\<And>x. k (h x) = k x"
  shows "insort_key k (h x) (map h ys) = map h (insort_key k x ys)"
  by (induction ys) (simp_all add: assms)

lemma sort_key_map:
  assumes "\<And>x. k (h x) = k x"
  shows "sort_key k (map h xs) = map h (sort_key k xs)"
  by (induction xs) (simp_all add: insort_key_map[of k h, OF assms])

lemma distinct_same_set_small:
  assumes "distinct xs" and "distinct ys" and "set xs = set ys" and "card (set xs) \<le> 1"
  shows "xs = ys"
proof -
  have "length xs \<le> 1" "length ys \<le> 1"
    using assms by (simp_all add: distinct_card[symmetric])
  then show ?thesis
    using assms(3) by (cases xs; cases ys) auto
qed

lemma match_npc_listed_fields [simp]:
  "name_fr (match_npc_listed g u by_name npc) = name_fr npc"
  "dialogs (match_npc_listed g u by_name npc) = dialogs npc"
  by (simp_all add: match_npc_listed_def split: option.splits)

lemma match_npc_listed_urls:
  "(match_npc_listed g u1 by_name npc)\<lparr>img_urls := us\<rparr>
     = (match_npc_listed g u2 by_name npc)\<lparr>img_urls := us\<rparr>"
  by (simp add: match_npc_listed_def split: option.splits)

lemma match_npc_listed_url_set:
  assumes "lists_a_set u1" and "lists_a_set u2"
  shows "set (img_urls (match_npc_listed g u1 by_name npc))
           = set (img_urls (match_npc_listed g u2 by_name npc))"
  using assms by (simp add: match_npc_listed_def lists_a_set_def split: option.splits)

lemma match_npc_listed_same:
  assumes u1: "lists_a_set u1" and u2: "lists_a_set u2"
    and small: "card (img_url ` {meta \<in> set ms. meta_name_fr meta = name_fr npc}) \<le> 1"
  shows "match_npc_listed g u1 (group_metadata ms) npc
           = match_npc_listed g u2 (group_metadata ms) npc"
proof (cases "filter (\<lambda>meta. meta_name_fr meta = name_fr npc) ms = []")
  case True
  then show ?thesis
    by (simp add: match_npc_listed_def map_of_group_metadata)
next
  case False
  let ?urls = "map img_url (filter (\<lambda>meta. meta_name_fr meta = name_fr npc) ms)"
  have "set ?urls = img_url ` {meta \<in> set ms. meta_name_fr meta = name_fr npc}"
    by auto
  with small have "card (set ?urls) \<le> 1"
    by simp
  then have "card (set (u1 ?urls)) \<le> 1"
    using u1 by (simp add: lists_a_set_def)
  moreover have "distinct (u1 ?urls)" "distinct (u2 ?urls)" "set (u1 ?urls) = set (u2 ?urls)"
    using u1 u2 by (simp_all add: lists_a_set_def)
  ultimately have "u1 ?urls = u2 ?urls"
    by (intro distinct_same_set_small)
  with False show ?thesis
    by (simp add: match_npc_listed_def map_of_group_metadata)
qed

lemma card_without_urls:
  "(generate_npc_card s npc)\<lparr>data_img_urls := None\<rparr>
     = (generate_npc_card s (npc\<lparr>img_urls := []\<rparr>))\<lparr>data_img_urls := None\<rparr>"
  by (simp add: generate_npc_card_def)

lemma cards_of_matched:
  "npc_cards (generate_html_content (match_metadata_with_npcs_listed g u self))
     = map (\<lambda>npc. generate_npc_card self (match_npc_listed g u (group_metadata (metadata self)) npc))
         (filter (\<lambda>npc. dialogs npc \<noteq> []) (sorted_npcs self))"
proof -
  let ?h = "match_npc_listed g u (group_metadata (metadata self))"
  let ?m = "match_metadata_with_npcs_listed g u self"
  have matched: "map snd (npcs ?m) = map ?h (map snd (npcs self))"
    by (simp add: match_metadata_with_npcs_listed_def comp_def case_prod_beta)
  have "sorted_npcs ?m = map ?h (sorted_npcs self)"
    unfolding sorted_npcs_def matched by (rule sort_key_map) simp
  then have "filter (\<lambda>npc. dialogs npc \<noteq> []) (sorted_npcs ?m)
      = map ?h (filter (\<lambda>npc. dialogs npc \<noteq> []) (sorted_npcs self))"
    by (simp add: filter_map comp_def)
  moreover have "generate_npc_card ?m = generate_npc_card self"
    by (rule ext) (simp add: generate_npc_card_def match_metadata_with_npcs_listed_def)
  ultimately show ?thesis
    by (simp add: generate_html_content_def comp_def)
qed

lemma stats_of_matched:
  "stats_total_npcs (generate_html_content (match_metadata_with_npcs_listed g u self))
     = stats_total_npcs (generate_html_content self)"
  "stats_total_messages (generate_html_content (match_metadata_with_npcs_listed g u self))
     = stats_total_messages (generate_html_content self)"
  "stats_total_replies (generate_html_content (match_metadata_with_npcs_listed g u self))
     = stats_total_replies (generate_html_content self)"
  by (simp_all add: generate_html_content_def match_metadata_with_npcs_listed_def comp_def
        case_prod_beta filter_map)

lemma matched_up_to_url_order:
  assumes u1: "lists_a_set u1" and u2: "lists_a_set u2"
  shows "map (\<lambda>(k, npc). (k, npc\<lparr>img_urls := []\<rparr>, set (img_urls npc)))
             (npcs (match_metadata_with_npcs_listed g u1 self))
           = map (\<lambda>(k, npc). (k, npc\<lparr>img_urls := []\<rparr>, set (img_urls npc)))
               (npcs (match_metadata_with_npcs_listed g u2 self))
         \<and> stats_total_npcs (generate_html_content (match_metadata_with_npcs_listed g u1 self))
             = stats_total_npcs (generate_html_content (match_metadata_with_npcs_listed g u2 self))
         \<and> stats_total_messages (generate_html_content (match_metadata_with_npcs_listed g u1 self))
             = stats_total_messages (generate_html_content (match_metadata_with_npcs_listed g u2 self))
         \<and> stats_total_replies (generate_html_content (match_metadata_with_npcs_listed g u1 self))
             = stats_total_replies (generate_html_content (match_metadata_with_npcs_listed g u2 self))
         \<and> map (\<lambda>c. c\<lparr>data_img_urls := None\<rparr>)
               (npc_cards (generate_html_content (match_metadata_with_npcs_listed g u1 self)))
             = map (\<lambda>c. c\<lparr>data_img_urls := None\<rparr>)
                 (npc_cards (generate_html_content (match_metadata_with_npcs_listed g u2 self)))
         \<and> ((\<forall>npc \<in> snd ` set (npcs self).
                card (img_url ` {meta \<in> set (metadata self). meta_name_fr meta = name_fr npc}) \<le> 1)
             \<longrightarrow> generate_html_content (match_metadata_with_npcs_listed g u1 self)
                   = generate_html_content (match_metadata_with_npcs_listed g u2 self))"
proof -
  let ?B = "group_metadata (metadata self)"
  let ?m1 = "match_metadata_with_npcs_listed g u1 self"
  let ?m2 = "match_metadata_with_npcs_listed g u2 self"
  have same_npcs: "map (\<lambda>(k, npc). (k, npc\<lparr>img_urls := []\<rparr>, set (img_urls npc))) (npcs ?m1)
           = map (\<lambda>(k, npc). (k, npc\<lparr>img_urls := []\<rparr>, set (img_urls npc))) (npcs ?m2)"
    using match_npc_listed_urls[where g = g and ?u1.0 = u1 and ?u2.0 = u2 and by_name = ?B and us = "[]"]
      match_npc_listed_url_set[OF u1 u2, where g = g and by_name = ?B]
    by (simp add: match_metadata_with_npcs_listed_def comp_def case_prod_beta)
  have stats: "stats_total_npcs (generate_html_content ?m1) = stats_total_npcs (generate_html_content ?m2)"
    "stats_total_messages (generate_html_content ?m1) = stats_total_messages (generate_html_content ?m2)"
    "stats_total_replies (generate_html_content ?m1) = stats_total_replies (generate_html_content ?m2)"
    by (simp_all add: stats_of_matched)
  have card: "(generate_npc_card self (match_npc_listed g u1 ?B npc))\<lparr>data_img_urls := None\<rparr>
      = (generate_npc_card self (match_npc_listed g u2 ?B npc))\<lparr>data_img_urls := None\<rparr>" for npc
    using card_without_urls[where s = self and npc = "match_npc_listed g u1 ?B npc"]
      card_without_urls[where s = self and npc = "match_npc_listed g u2 ?B npc"]
      match_npc_listed_urls[where g = g and ?u1.0 = u1 and ?u2.0 = u2 and by_name = ?B
        and us = "[]" and npc = npc]
    by simp
  have cards: "map (\<lambda>c. c\<lparr>data_img_urls := None\<rparr>) (npc_cards (generate_html_content ?m1))
      = map (\<lambda>c. c\<lparr>data_img_urls := None\<rparr>) (npc_cards (generate_html_content ?m2))"
    by (simp add: cards_of_matched comp_def card)
  have equal: "generate_html_content ?m1 = generate_html_content ?m2"
    if small: "\<forall>npc \<in> snd ` set (npcs self).
       card (img_url ` {meta \<in> set (metadata self). meta_name_fr meta = name_fr npc}) \<le> 1"
  proof -
    have "match_npc_listed g u1 ?B npc = match_npc_listed g u2 ?B npc"
      if "(k, npc) \<in> set (npcs self)" for k npc
    proof (rule match_npc_listed_same[OF u1 u2])
      from that have "npc \<in> snd ` set (npcs self)"
        by force
      with small
      show "card (img_url ` {meta \<in> set (metadata self). meta_name_fr meta = name_fr npc}) \<le> 1"
        by blast
    qed
    then have "npcs ?m1 = npcs ?m2"
      by (auto simp: match_metadata_with_npcs_listed_def)
    moreover have "messages ?m1 = messages ?m2" "mapper_replies ?m1 = mapper_replies ?m2"
      by (simp_all add: match_metadata_with_npcs_listed_def)
    ultimately show ?thesis
      by (simp add: generate_html_content_def sorted_npcs_def generate_npc_card_def)
  qed
  from same_npcs stats cards equal show ?thesis
    by (intro conjI impI)
qed

lemma then_load_twice:
  "then_load r (\<lambda>x. Inr (f x)) = Inr m1 \<Longrightarrow> then_load r (\<lambda>x. Inr (f' x)) = Inr m2
   \<Longrightarrow> \<exists>x. m1 = f x \<and> m2 = f' x"
  by (auto simp: then_load_def split: sum.splits)

lemma load_data_listed_same_state:
  assumes "load_data_listed g u1 fs self = Inr m1" and "load_data_listed g u2 fs self = Inr m2"
  shows "\<exists>s. m1 = match_metadata_with_npcs_listed g u1 s
           \<and> m2 = match_metadata_with_npcs_listed g u2 s"
proof -
  from then_load_twice[OF assms[unfolded load_data_listed_def]]
  show ?thesis
    by blast
qed

lemma matched_fields [simp]:
  "messages (match_metadata_with_npcs_listed g u s) = messages s"
  "mapper_replies (match_metadata_with_npcs_listed g u s) = mapper_replies s"
  "mapper_dialogs (match_metadata_with_npcs_listed g u s) = mapper_dialogs s"
  "metadata (match_metadata_with_npcs_listed g u s) = metadata s"
  by (simp_all add: match_metadata_with_npcs_listed_def)

lemma matched_names:
  "npc \<in> snd ` set (npcs s)
   \<Longrightarrow> match_npc_listed g u (group_metadata (metadata s)) npc
         \<in> snd ` set (npcs (match_metadata_with_npcs_listed g u s))"
  by (force simp: match_metadata_with_npcs_listed_def)

text \<open>
  Claim C8, as amended. Two loads of the same files, in two runs that list the image URLs
  in whatever two orders, yield datasets with the same NPCs (each with the same set of
  image URLs), messages, replies, dialogs and metadata, and documents with the same
  counters and the same cards in the same order, apart from the order of the URLs inside
  the attribute \<^verbatim>\<open>data-img-urls\<close> of a card. When no NPC has metadata records that carry
  two different image URLs, the two documents are equal.
\<close>

theorem render_of_two_loads:
  assumes load1: "load_data_listed g u1 fs self = Inr m1"
    and load2: "load_data_listed g u2 fs self = Inr m2"
    and u1: "lists_a_set u1" and u2: "lists_a_set u2"
  shows "map (\<lambda>(k, npc). (k, npc\<lparr>img_urls := []\<rparr>, set (img_urls npc))) (npcs m1)
           = map (\<lambda>(k, npc). (k, npc\<lparr>img_urls := []\<rparr>, set (img_urls npc))) (npcs m2)
         \<and> messages m1 = messages m2 \<and> mapper_replies m1 = mapper_replies m2
         \<and> mapper_dialogs m1 = mapper_dialogs m2 \<and> metadata m1 = metadata m2
         \<and> stats_total_npcs (generate_html_content m1) = stats_total_npcs (generate_html_content m2)
         \<and> stats_total_messages (generate_html_content m1)
             = stats_total_messages (generate_html_content m2)
         \<and> stats_total_replies (generate_html_content m1)
             = stats_total_replies (generate_html_content m2)
         \<and> map (\<lambda>c. c\<lparr>data_img_urls := None\<rparr>) (npc_cards (generate_html_content m1))
             = map (\<lambda>c. c\<lparr>data_img_urls := None\<rparr>) (npc_cards (generate_html_content m2))
         \<and> ((\<forall>npc \<in> snd ` set (npcs m1).
                card (img_url ` {meta \<in> set (metadata m1). meta_name_fr meta = name_fr npc}) \<le> 1)
             \<longrightarrow> generate_html_content m1 = generate_html_content m2)"
proof -
  from load_data_listed_same_state[OF load1 load2]
  obtain s where m1: "m1 = match_metadata_with_npcs_listed g u1 s"
    and m2: "m2 = match_metadata_with_npcs_listed g u2 s"
    by blast
  note alike = matched_up_to_url_order[OF u1 u2, where g = g and self = s]
  have small: "\<forall>npc \<in> snd ` set (npcs s).
      card (img_url ` {meta \<in> set (metadata s). meta_name_fr meta = name_fr npc}) \<le> 1"
    if "\<forall>npc \<in> snd ` set (npcs m1).
      card (img_url ` {meta \<in> set (metadata m1). meta_name_fr meta = name_fr npc}) \<le> 1"
  proof
    fix npc
    assume "npc \<in> snd ` set (npcs s)"
    then have "match_npc_listed g u1 (group_metadata (metadata s)) npc \<in> snd ` set (npcs m1)"
      unfolding m1 by (rule matched_names)
    with that
    have "card (img_url ` {meta \<in> set (metadata m1). meta_name_fr meta
             = name_fr (match_npc_listed g u1 (group_metadata (metadata s)) npc)}) \<le> 1"
      by blast
    then show "card (img_url ` {meta \<in> set (metadata s). meta_name_fr meta = name_fr npc}) \<le> 1"
      by (simp add: m1)
  qed
  have "(\<forall>npc \<in> snd ` set (npcs m1).
            card (img_url ` {meta \<in> set (metadata m1). meta_name_fr meta = name_fr npc}) \<le> 1)
        \<longrightarrow> generate_html_content m1 = generate_html_content m2"
    using small alike unfolding m1 m2 by blast
  moreover have "messages m1 = messages m2" "mapper_replies m1 = mapper_replies m2"
    "mapper_dialogs m1 = mapper_dialogs m2" "metadata m1 = metadata m2"
    by (simp_all add: m1 m2)
  ultimately show ?thesis
    using alike unfolding m1 m2 by (intro conjI) blast+
qed

text \<open>
  The claim as stated fails. Two loads of \<open>two_image_folder\<close> that list the set of the
  images \<^verbatim>\<open>a.png\<close> and \<^verbatim>\<open>b.png\<close> in the two possible orders hold the same NPCs (with the
  same sets of image URLs), messages, replies, dialogs and metadata; yet the card of Zoe
  carries \<^verbatim>\<open>data-img-urls="a.png|b.png"\<close> in one document and
  \<^verbatim>\<open>data-img-urls="b.png|a.png"\<close> in the other.
\<close>

theorem render_of_two_loads_counterexample:
  "map_sum id (\<lambda>m. (map (\<lambda>(k, npc). (k, npc\<lparr>img_urls := []\<rparr>, set (img_urls npc))) (npcs m),
                     messages m, mapper_replies m, mapper_dialogs m, metadata m))
     (load_data_listed remdups remdups two_image_folder (init_mapper ''data'' False [] []))
   = map_sum id (\<lambda>m. (map (\<lambda>(k, npc). (k, npc\<lparr>img_urls := []\<rparr>, set (img_urls npc))) (npcs m),
                       messages m, mapper_replies m, mapper_dialogs m, metadata m))
       (load_data_listed remdups (rev \<circ> remdups) two_image_folder (init_mapper ''data'' False [] []))
   \<and> map_sum id (\<lambda>m. map data_img_urls (npc_cards (generate_html_content m)))
       (load_data_listed remdups remdups two_image_folder (init_mapper ''data'' False [] []))
     = Inr [None, Some ''a.png|b.png'']
   \<and> map_sum id (\<lambda>m. map data_img_urls (npc_cards (generate_html_content m)))
       (load_data_listed remdups (rev \<circ> remdups) two_image_folder (init_mapper ''data'' False [] []))
     = Inr [None, Some ''b.png|a.png'']
   \<and> map_sum id generate_html_content
       (load_data_listed remdups remdups two_image_folder (init_mapper ''data'' False [] []))
     \<noteq> map_sum id generate_html_content
         (load_data_listed remdups (rev \<circ> remdups) two_image_folder (init_mapper ''data'' False [] []))"
  by code_simp

text \<open>
  When the two records of Zoe carry the same image, the two loads yield the same
  document, with the card of alice before the card of Zoe; when they carry two images,
  the two documents agree apart from \<^verbatim>\<open>data-img-urls\<close>.
\<close>

theorem render_of_two_loads_witness:
  "map_sum id (\<lambda>m. map card_title (npc_cards (generate_html_content m)))
       (load_data_listed remdups remdups one_image_folder (init_mapper ''data'' False [] []))
     = Inr [''alice'', ''Zoe'']
   \<and> map_sum id (\<lambda>m. map data_img_urls (npc_cards (generate_html_content m)))
       (load_data_listed remdups remdups one_image_folder (init_mapper ''data'' False [] []))
     = Inr [Some ''b.png'', Some ''a.png'']
   \<and> map_sum id generate_html_content
       (load_data_listed remdups remdups one_image_folder (init_mapper ''data'' False [] []))
     = map_sum id generate_html_content
         (load_data_listed remdups (rev \<circ> remdups) one_image_folder (init_mapper ''data'' False [] []))
   \<and> map_sum id (\<lambda>m. map (\<lambda>c. c\<lparr>data_img_urls := None\<rparr>) (npc_cards (generate_html_content m)))
       (load_data_listed remdups remdups two_image_folder (init_mapper ''data'' False [] []))
     = map_sum id (\<lambda>m. map (\<lambda>c. c\<lparr>data_img_urls := None\<rparr>) (npc_cards (generate_html_content m)))
         (load_data_listed remdups (rev \<circ> remdups) two_image_folder (init_mapper ''data'' False [] []))"
proof -
  let ?one1 = "load_data_listed remdups remdups one_image_folder (init_mapper ''data'' False [] [])"
  let ?one2 = "load_data_listed remdups (rev \<circ> remdups) one_image_folder
                 (init_mapper ''data'' False [] [])"
  let ?two1 = "load_data_listed remdups remdups two_image_folder (init_mapper ''data'' False [] [])"
  let ?two2 = "load_data_listed remdups (rev \<circ> remdups) two_image_folder
                 (init_mapper ''data'' False [] [])"
  have loaded: "?one1 = Inr (projr ?one1)" "?one2 = Inr (projr ?one2)"
    "?two1 = Inr (projr ?two1)" "?two2 = Inr (projr ?two2)"
    by code_simp+
  have small: "\<forall>npc \<in> snd ` set (npcs (projr ?one1)).
      card (img_url ` {meta \<in> set (metadata (projr ?one1)). meta_name_fr meta = name_fr npc}) \<le> 1"
    by code_simp
  have titles: "map card_title (npc_cards (generate_html_content (projr ?one1))) = [''alice'', ''Zoe'']"
    "map data_img_urls (npc_cards (generate_html_content (projr ?one1)))
       = [Some ''b.png'', Some ''a.png'']"
    by code_simp+
  have same: "generate_html_content (projr ?one1) = generate_html_content (projr ?one2)"
    using render_of_two_loads[OF loaded(1) loaded(2) lists_a_set_remdups lists_a_set_rev_remdups]
      small by blast
  have cards: "map (\<lambda>c. c\<lparr>data_img_urls := None\<rparr>) (npc_cards (generate_html_content (projr ?two1)))
      = map (\<lambda>c. c\<lparr>data_img_urls := None\<rparr>) (npc_cards (generate_html_content (projr ?two2)))"
    using render_of_two_loads[OF loaded(3) loaded(4) lists_a_set_remdups lists_a_set_rev_remdups]
    by blast
  have lift: "map_sum id f x = Inr (f (projr x))" if "x = Inr (projr x)"
    for f :: "NPCDialogMapper \<Rightarrow> 'b" and x :: "load_error + NPCDialogMapper"
    using that by (cases x) simp_all
  have "map_sum id (\<lambda>m. map card_title (npc_cards (generate_html_content m))) ?one1
      = Inr [''alice'', ''Zoe'']"
    by (simp add: lift[OF loaded(1)] titles(1))
  moreover have "map_sum id (\<lambda>m. map data_img_urls (npc_cards (generate_html_content m))) ?one1
      = Inr [Some ''b.png'', Some ''a.png'']"
    by (simp add: lift[OF loaded(1)] titles(2))
  moreover have "map_sum id generate_html_content ?one1 = map_sum id generate_html_content ?one2"
    by (simp add: lift[OF loaded(1)] lift[OF loaded(2)] same)
  moreover have "map_sum id (\<lambda>m. map (\<lambda>c. c\<lparr>data_img_urls := None\<rparr>)
                                 (npc_cards (generate_html_content m))) ?two1
      = map_sum id (\<lambda>m. map (\<lambda>c. c\<lparr>data_img_urls := None\<rparr>)
                                 (npc_cards (generate_html_content m))) ?two2"
    by (simp add: lift[OF loaded(3)] lift[OF loaded(4)] cards)
  ultimately show ?thesis
    by (intro conjI)
qed

subsection \<open>Missing files\<close>

lemma printed_say [simp]: "printed (say line self) = printed self @ [line]"
  by (simp add: say_def)

lemma printed_say_all [simp]: "printed (say_all lines self) = printed self @ lines"
  by (simp add: say_all_def)

lemma say_fields [simp]:
  "npcs (say line self) = npcs self" "messages (say line self) = messages self"
  "mapper_replies (say line self) = mapper_replies self"
  "mapper_dialogs (say line self) = mapper_dialogs self"
  "metadata (say line self) = metadata self"
  by (simp_all add: say_def)

lemma say_all_fields [simp]:
  "npcs (say_all lines self) = npcs self" "messages (say_all lines self) = messages self"
  "mapper_replies (say_all lines self) = mapper_replies self"
  "mapper_dialogs (say_all lines self) = mapper_dialogs self"
  "metadata (say_all lines self) = metadata self"
  by (simp_all add: say_all_def)

lemma load_listed_printed:
  assumes "\<And>es s. set (printed s) \<subseteq> set (printed (put es s))"
  shows "set (printed self) \<subseteq> set (printed (load_listed a b c d file put self))"
  using assms by (auto simp: load_listed_def split: json_file.splits list.splits item.splits)

lemma load_listed_field:
  assumes "\<And>es s. f (put es s) = f s" "\<And>line s. f (say line s) = f s"
    "\<And>lines s. f (say_all lines s) = f s"
  shows "f (load_listed a b c d file put self) = f self"
  using assms by (auto simp: load_listed_def split: json_file.splits list.splits item.splits)

lemma original_loaders_npcs [simp]:
  "npcs (load_metadata_original fs self) = npcs self"
  "npcs (load_messages_original fs self) = npcs self"
  "npcs (load_replies_original fs self) = npcs self"
  by (simp_all add: load_metadata_original_def load_messages_original_def
        load_replies_original_def load_listed_field)

lemma original_loaders_messages [simp]:
  "messages (load_metadata_original fs self) = messages self"
  "messages (load_npcs_original fs self) = messages self"
  "messages (load_replies_original fs self) = messages self"
  by (simp_all add: load_metadata_original_def load_npcs_original_def
        load_replies_original_def load_listed_field)

lemma original_loaders_replies [simp]:
  "mapper_replies (load_metadata_original fs self) = mapper_replies self"
  "mapper_replies (load_npcs_original fs self) = mapper_replies self"
  "mapper_replies (load_messages_original fs self) = mapper_replies self"
  by (simp_all add: load_metadata_original_def load_npcs_original_def
        load_messages_original_def load_listed_field)

lemma original_loaders_printed:
  "set (printed self) \<subseteq> set (printed (load_metadata_original fs self))"
  "set (printed self) \<subseteq> set (printed (load_npcs_original fs self))"
  "set (printed self) \<subseteq> set (printed (load_messages_original fs self))"
  "set (printed self) \<subseteq> set (printed (load_replies_original fs self))"
  by (simp_all add: load_metadata_original_def load_npcs_original_def
        load_messages_original_def load_replies_original_def load_listed_printed)

lemma original_missing:
  "npc_json fs = Missing \<Longrightarrow> load_npcs_original fs self = say ''Warning: NPC file not found'' self"
  "message_json fs = Missing \<Longrightarrow>
     load_messages_original fs self = say ''Warning: Message file not found'' self"
  "reply_json fs = Missing \<Longrightarrow>
     load_replies_original fs self = say ''Warning: Reply file not found'' self"
  by (simp_all add: load_npcs_original_def load_messages_original_def load_replies_original_def
        load_listed_def)

lemma load_dialogs_original_cases:
  "dialog_json fs = Missing \<Longrightarrow> load_dialogs_original fs self = Inl FileNotFoundError"
  "dialog_json fs \<noteq> Missing \<Longrightarrow> dialog_json fs \<noteq> Unparsable \<Longrightarrow>
     \<exists>s. load_dialogs_original fs self = Inr s \<and> npcs s = npcs self
       \<and> messages s = messages self \<and> mapper_replies s = mapper_replies self
       \<and> printed s = printed self"
  by (auto simp: load_dialogs_original_def split: json_file.splits)

lemma fold_link_dialog_Nil [simp]: "fold link_dialog ds [] = []"
  by (induction ds) (simp_all add: link_dialog_def)

lemma fold_link_reply_Nil [simp]: "fold link_reply rs [] = []"
  by (induction rs) (simp_all add: link_reply_def)

lemma finish_original_fields:
  "npcs s = [] \<Longrightarrow> npcs (match_metadata_with_npcs_original (build_relationships_original s)) = []"
  "messages s = [] \<Longrightarrow>
     messages (match_metadata_with_npcs_original (build_relationships_original s)) = []"
  "mapper_replies (match_metadata_with_npcs_original (build_relationships_original s))
     = mapper_replies s"
  "printed (match_metadata_with_npcs_original (build_relationships_original s)) = printed s"
  by (simp_all add: match_metadata_with_npcs_original_def build_relationships_original_def)

lemma fixed_missing:
  "npc_json fs = Missing \<Longrightarrow> load_npcs fs self = Inl FileNotFoundError"
  "message_json fs = Missing \<Longrightarrow> load_messages fs self = Inl FileNotFoundError"
  "reply_json fs = Missing \<Longrightarrow> load_replies fs self = Inl FileNotFoundError"
  "dialog_json fs = Missing \<Longrightarrow> load_dialogs fs self = Inl FileNotFoundError"
  by (simp_all add: load_npcs_def load_messages_def load_replies_def load_dialogs_def
        read_wrapped_def then_load_def)

lemma use_xliff_load_metadata [simp]: "use_xliff (load_metadata fs self) = use_xliff self"
  by (simp add: load_metadata_def say_def Let_def split: json_file.splits)

lemma load_data_fixed_missing:
  assumes "\<not> use_xliff self"
    and "npc_json fs = Missing \<or> message_json fs = Missing \<or> reply_json fs = Missing
         \<or> dialog_json fs = Missing"
  shows "\<exists>e. load_data fs self = Inl e"
proof (cases "load_npcs fs (load_metadata fs self)")
  case (Inl e)
  with assms(1) show ?thesis by (simp add: load_data_def load_data_listed_def then_load_def)
next
  case s1: (Inr s1)
  then have npc: "npc_json fs \<noteq> Missing"
    using fixed_missing(1) by fastforce
  show ?thesis
  proof (cases "load_messages fs s1")
    case (Inl e)
    with assms(1) s1 show ?thesis by (simp add: load_data_def load_data_listed_def then_load_def)
  next
    case s2: (Inr s2)
    then have msg: "message_json fs \<noteq> Missing"
      using fixed_missing(2) by fastforce
    show ?thesis
    proof (cases "load_replies fs s2")
      case (Inl e)
      with assms(1) s1 s2 show ?thesis by (simp add: load_data_def load_data_listed_def then_load_def)
    next
      case s3: (Inr s3)
      then have "reply_json fs \<noteq> Missing"
        using fixed_missing(3) by fastforce
      with npc msg assms(2) have "dialog_json fs = Missing"
        by blast
      then have "load_dialogs fs s3 = Inl FileNotFoundError"
        by (rule fixed_missing(4))
      with assms(1) s1 s2 s3 show ?thesis by (simp add: load_data_def load_data_listed_def then_load_def)
    qed
  qed
qed

lemma load_data_fixed_missing_npcs:
  "\<not> use_xliff self \<Longrightarrow> npc_json fs = Missing \<Longrightarrow> load_data fs self = Inl FileNotFoundError"
  by (simp add: load_data_def load_data_listed_def then_load_def fixed_missing)

lemma load_json_data_original_ok:
  assumes "dialog_json fs \<noteq> Missing" "dialog_json fs \<noteq> Unparsable"
    and fresh: "npcs self = []" "messages self = []" "mapper_replies self = []"
  shows "\<exists>s. load_json_data_original fs self = Inr s
     \<and> (npc_json fs = Missing \<longrightarrow>
          npcs s = [] \<and> ''Warning: NPC file not found'' \<in> set (printed s))
     \<and> (message_json fs = Missing \<longrightarrow>
          messages s = [] \<and> ''Warning: Message file not found'' \<in> set (printed s))
     \<and> (reply_json fs = Missing \<longrightarrow>
          mapper_replies s = [] \<and> ''Warning: Reply file not found'' \<in> set (printed s))"
proof -
  let ?s1 = "load_metadata_original fs self"
  let ?s2 = "load_npcs_original fs ?s1"
  let ?s3 = "load_messages_original fs ?s2"
  let ?s4 = "load_replies_original fs ?s3"
  from load_dialogs_original_cases(2)[OF assms(1,2), of ?s4]
  obtain s5 where s5: "load_dialogs_original fs ?s4 = Inr s5" "npcs s5 = npcs ?s4"
    "messages s5 = messages ?s4" "mapper_replies s5 = mapper_replies ?s4" "printed s5 = printed ?s4"
    by blast
  let ?s = "match_metadata_with_npcs_original (build_relationships_original s5)"
  have result: "load_json_data_original fs self = Inr ?s"
    using s5(1) by (simp add: load_json_data_original_def then_load_def)
  have npc: "npcs ?s = [] \<and> ''Warning: NPC file not found'' \<in> set (printed ?s)"
    if "npc_json fs = Missing"
  proof -
    have "''Warning: NPC file not found'' \<in> set (printed ?s2)"
      using that by (simp add: original_missing)
    then have "''Warning: NPC file not found'' \<in> set (printed ?s4)"
      using original_loaders_printed(3,4) by blast
    moreover have "npcs s5 = []"
      using that s5(2) fresh by (simp add: original_missing)
    ultimately show ?thesis
      using s5(5) by (simp add: finish_original_fields)
  qed
  have msg: "messages ?s = [] \<and> ''Warning: Message file not found'' \<in> set (printed ?s)"
    if "message_json fs = Missing"
  proof -
    have "''Warning: Message file not found'' \<in> set (printed ?s3)"
      using that by (simp add: original_missing)
    then have "''Warning: Message file not found'' \<in> set (printed ?s4)"
      using original_loaders_printed(4) by blast
    moreover have "messages s5 = []"
      using that s5(3) fresh by (simp add: original_missing)
    ultimately show ?thesis
      using s5(5) by (simp add: finish_original_fields)
  qed
  have reply: "mapper_replies ?s = []
      \<and> ''Warning: Reply file not found'' \<in> set (printed ?s)"
    if "reply_json fs = Missing"
    using that s5(4,5) fresh by (simp add: original_missing finish_original_fields)
  from result npc msg reply show ?thesis
    by blast
qed

text \<open>
  Claim C2, as amended. In the original variant a missing dialog file fails the whole
  JSON load with a missing-file error; when the dialog file can be read, a missing NPC,
  message or reply file only prints a warning and leaves the collection of that type
  empty, and the load succeeds. In the fixed variant a missing file of any of the four
  types fails the whole JSON load; the error is the missing-file error when the NPC file,
  which is read first, is the missing one.
\<close>

theorem missing_file_policy:
  "(dialog_json fs = Missing \<longrightarrow>
      load_json_data_original fs (init_mapper folder False folder' files) = Inl FileNotFoundError)
   \<and> (dialog_json fs \<noteq> Missing \<and> dialog_json fs \<noteq> Unparsable \<longrightarrow>
        (\<exists>s. load_json_data_original fs (init_mapper folder False folder' files) = Inr s
           \<and> (npc_json fs = Missing \<longrightarrow>
                npcs s = [] \<and> ''Warning: NPC file not found'' \<in> set (printed s))
           \<and> (message_json fs = Missing \<longrightarrow>
                messages s = [] \<and> ''Warning: Message file not found'' \<in> set (printed s))
           \<and> (reply_json fs = Missing \<longrightarrow>
                mapper_replies s = [] \<and> ''Warning: Reply file not found'' \<in> set (printed s))))
   \<and> (npc_json fs = Missing \<or> message_json fs = Missing \<or> reply_json fs = Missing
        \<or> dialog_json fs = Missing \<longrightarrow>
        (\<exists>e. load_data fs (init_mapper folder False folder' files) = Inl e))
   \<and> (npc_json fs = Missing \<longrightarrow>
        load_data fs (init_mapper folder False folder' files) = Inl FileNotFoundError)"
proof (intro conjI impI)
  assume "dialog_json fs = Missing"
  then show "load_json_data_original fs (init_mapper folder False folder' files)
      = Inl FileNotFoundError"
    by (simp add: load_json_data_original_def then_load_def load_dialogs_original_cases)
next
  assume "dialog_json fs \<noteq> Missing \<and> dialog_json fs \<noteq> Unparsable"
  then have "dialog_json fs \<noteq> Missing" "dialog_json fs \<noteq> Unparsable"
    by simp_all
  from load_json_data_original_ok[OF this, of "init_mapper folder False folder' files"]
  show "\<exists>s. load_json_data_original fs (init_mapper folder False folder' files) = Inr s
           \<and> (npc_json fs = Missing \<longrightarrow>
                npcs s = [] \<and> ''Warning: NPC file not found'' \<in> set (printed s))
           \<and> (message_json fs = Missing \<longrightarrow>
                messages s = [] \<and> ''Warning: Message file not found'' \<in> set (printed s))
           \<and> (reply_json fs = Missing \<longrightarrow>
                mapper_replies s = [] \<and> ''Warning: Reply file not found'' \<in> set (printed s))"
    by (simp add: init_mapper_def)
next
  assume "npc_json fs = Missing \<or> message_json fs = Missing \<or> reply_json fs = Missing
        \<or> dialog_json fs = Missing"
  then show "\<exists>e. load_data fs (init_mapper folder False folder' files) = Inl e"
    by (intro load_data_fixed_missing) (simp_all add: init_mapper_def)
next
  assume "npc_json fs = Missing"
  then show "load_data fs (init_mapper folder False folder' files) = Inl FileNotFoundError"
    by (intro load_data_fixed_missing_npcs) (simp_all add: init_mapper_def)
qed

text \<open>
  The claim as stated fails in the fixed variant: without the NPC file, the other files
  being in place, the load does not succeed with a warning but ends with the
  missing-file error.
\<close>

theorem missing_file_policy_counterexample:
  "npc_json folder_of_wrapped_lists = Missing
   \<and> load_data folder_of_wrapped_lists (init_mapper ''data'' False [] []) = Inl FileNotFoundError"
  by code_simp


text \<open>
  The original variant on a folder without the NPC and metadata files: the load succeeds
  with no NPC and the two warnings; without the dialog file it fails. The fixed variant
  fails without the reply file.
\<close>

theorem missing_file_policy_witness:
  "(case load_json_data_original folder_of_lists (init_mapper ''data'' False [] []) of
      Inl e \<Rightarrow> None
    | Inr s \<Rightarrow> Some (npcs s, map fst (messages s), map fst (mapper_replies s), printed s))
     = Some ([], [100], [200], [''Warning: Metadata file not found'', ''Warning: NPC file not found''])
   \<and> load_json_data_original (folder_of_lists\<lparr>dialog_json := Missing\<rparr>)
         (init_mapper ''data'' False [] []) = Inl FileNotFoundError
   \<and> load_data (folder_of_wrapped_lists\<lparr>npc_json := Wrapped [], reply_json := Missing\<rparr>)
         (init_mapper ''data'' False [] []) = Inl FileNotFoundError"
proof -
  have "dialog_json (folder_of_lists\<lparr>dialog_json := Missing\<rparr>) = Missing"
    by simp
  with missing_file_policy[of "folder_of_lists\<lparr>dialog_json := Missing\<rparr>" "''data''" "[]" "[]"]
  have "load_json_data_original (folder_of_lists\<lparr>dialog_json := Missing\<rparr>)
         (init_mapper ''data'' False [] []) = Inl FileNotFoundError"
    by blast
  moreover have "(case load_json_data_original folder_of_lists (init_mapper ''data'' False [] []) of
      Inl e \<Rightarrow> None
    | Inr s \<Rightarrow> Some (npcs s, map fst (messages s), map fst (mapper_replies s), printed s))
     = Some ([], [100], [200], [''Warning: Metadata file not found'', ''Warning: NPC file not found''])"
    by code_simp
  moreover have "load_data (folder_of_wrapped_lists\<lparr>npc_json := Wrapped [], reply_json := Missing\<rparr>)
         (init_mapper ''data'' False [] []) = Inl FileNotFoundError"
    by code_simp
  ultimately show ?thesis
    by blast
qed

subsection \<open>The search contract\<close>

text \<open>
  Claim C4, as amended. For the row text "category": the term "cat" does not match with
  \<^verbatim>\<open>exactMatch\<close> and matches without it; with \<^verbatim>\<open>useWildcards\<close> the term "cat*" matches
  when \<^verbatim>\<open>exactMatch\<close> is off and does not match when \<^verbatim>\<open>exactMatch\<close> is on, since the exact
  match is tested first and reads the term, star included, literally between word
  boundaries. \<^verbatim>\<open>highlightText\<close> chooses its expression in the same order.
\<close>

theorem search_exactness:
  "row_matches rd ''category'' ''cat'' False False True = False
   \<and> row_matches rd ''category'' ''cat'' False False False = True
   \<and> row_matches rd ''category'' ''cat*'' False True False = True
   \<and> row_matches rd ''category'' ''cat*'' False True True = False
   \<and> regex_test (highlight_regex rd ''cat*'' False True True) ''category'' = False
   \<and> regex_test (highlight_regex rd ''cat*'' False True False) ''category'' = True"
  by code_simp

text \<open>The claim as stated fails: with both options on, "cat*" does not match "category".\<close>

theorem search_exactness_counterexample:
  "\<not> row_matches (\<lambda>s. s) ''category'' ''cat*'' False True True"
  by code_simp

subsection \<open>Merge correctness in translation-file mode\<close>

lemma py_int_examples:
  "py_int '' 42'' = Some 42
   \<and> py_int ''-4_2'' = Some (- 42)
   \<and> py_int [CHR 0x1C, CHR ''4'', CHR ''2''] = None
   \<and> py_int [CHR 0xA0, CHR ''4'', CHR ''2'', CHR 0x85] = Some 42"
  by code_simp

lemma map_of_record_translation:
  "map_of (record_translation i src lang tgt table) j =
     (if j = i
      then Some (AList.update lang tgt
                   (case map_of table i of None \<Rightarrow> [(''fr'', src)] | Some entry \<Rightarrow> entry))
      else map_of table j)"
  by (cases "map_of table i") (simp_all add: record_translation_def map_of_map_entry update_conv')

lemma keys_map_entry: "map fst (AList.map_entry k f al) = map fst al"
  by (induction al) auto

lemma distinct_record_translation:
  "distinct (map fst table) \<Longrightarrow> distinct (map fst (record_translation i src lang tgt table))"
  by (cases "map_of table i") (simp_all add: record_translation_def keys_map_entry distinct_update)

lemma map_of_fold_targets:
  "map_of (fold (\<lambda>tu. AList.update (fst tu) (the (target_text (snd tu)))) tus entry) lang =
     (if filter (\<lambda>tu. fst tu = lang) tus = [] then map_of entry lang
      else Some (the (target_text (snd (last (filter (\<lambda>tu. fst tu = lang) tus))))))"
proof (induction tus rule: rev_induct)
  case Nil
  show ?case by simp
next
  case (snoc tu tus)
  show ?case
    using snoc by (cases "fst tu = lang") (simp_all add: update_conv')
qed

lemma process_unit_tables:
  "npc_names (process_unit t u store) = table_step ''name'' (t, u) (npc_names store)"
  "xl_messages (process_unit t u store) = table_step ''message'' (t, u) (xl_messages store)"
  "xl_replies (process_unit t u store) = table_step ''reply'' (t, u) (xl_replies store)"
  by (auto simp: process_unit_def table_step_def unit_key_def split: option.splits list.splits)

lemma fold_process_unit_tables:
  "npc_names (fold (\<lambda>tu. process_unit (fst tu) (snd tu)) tus store)
     = fold (table_step ''name'') tus (npc_names store)"
  "xl_messages (fold (\<lambda>tu. process_unit (fst tu) (snd tu)) tus store)
     = fold (table_step ''message'') tus (xl_messages store)"
  "xl_replies (fold (\<lambda>tu. process_unit (fst tu) (snd tu)) tus store)
     = fold (table_step ''reply'') tus (xl_replies store)"
  by (induction tus arbitrary: store) (simp_all add: process_unit_tables)

lemma distinct_fold_table_step:
  "distinct (map fst table) \<Longrightarrow> distinct (map fst (fold (table_step ty) tus table))"
  by (induction tus arbitrary: table)
     (auto simp: table_step_def distinct_record_translation split: option.splits)

lemma map_of_fold_table_step:
  "map_of (fold (table_step ty) tus table) i =
     (if seen_units ty i tus = [] then map_of table i
      else Some (fold (\<lambda>tu. AList.update (fst tu) (the (target_text (snd tu))))
                   (seen_units ty i tus)
                   (case map_of table i of
                      None \<Rightarrow>
                        [(''fr'', clean_source_text
                                   (the (source_text (snd (hd (seen_units ty i tus))))))]
                    | Some entry \<Rightarrow> entry)))"
proof (induction tus arbitrary: table)
  case Nil
  show ?case by (simp add: seen_units_def)
next
  case (Cons tu tus)
  show ?case
  proof (cases "unit_key (snd tu) = Some (ty, i)")
    case True
    then have step: "map_of (table_step ty tu table) i
        = Some (AList.update (fst tu) (the (target_text (snd tu)))
                  (case map_of table i of
                     None \<Rightarrow> [(''fr'', clean_source_text (the (source_text (snd tu))))]
                   | Some entry \<Rightarrow> entry))"
      by (simp add: table_step_def map_of_record_translation)
    from True have seen: "seen_units ty i (tu # tus) = tu # seen_units ty i tus"
      by (simp add: seen_units_def)
    show ?thesis
      by (simp add: Cons step seen cong: option.case_cong)
  next
    case False
    then have "map_of (table_step ty tu table) i = map_of table i"
      by (cases "unit_key (snd tu)")
         (auto simp: table_step_def map_of_record_translation prod_eq_iff)
    moreover from False have "seen_units ty i (tu # tus) = seen_units ty i tus"
      by (simp add: seen_units_def)
    ultimately show ?thesis
      by (simp add: Cons cong: option.case_cong)
  qed
qed

lemma load_xliff_files_result:
  "load_xliff_files dir files self = Inr s \<Longrightarrow>
     xliff_translations s
       = fold (\<lambda>tu. process_unit (fst tu) (snd tu)) (units_in_order dir files)
           (xliff_translations self)
     \<and> npcs s = npcs self \<and> messages s = messages self \<and> mapper_replies s = mapper_replies self"
proof (induction files arbitrary: self)
  case Nil
  then show ?case by (simp add: units_in_order_def)
next
  case (Cons entry files)
  obtain lang_pair filename where entry: "entry = (lang_pair, filename)"
    by (cases entry)
  show ?case
  proof (cases "dir filename")
    case XMissing
    with Cons.prems entry
    have "load_xliff_files dir files (say ''    Warning: File not found: '' self) = Inr s"
      by simp
    from Cons.IH[OF this] XMissing entry show ?thesis
      by (simp add: units_in_order_def units_of_file_def say_def)
  next
    case XMalformed
    with Cons.prems entry obtain t where "target_lang_of lang_pair = Some t"
      and "load_xliff_files dir files (say ''    Error parsing '' self) = Inr s"
      by (auto split: option.splits)
    from Cons.IH[OF this(2)] XMalformed entry show ?thesis
      by (simp add: units_in_order_def units_of_file_def say_def)
  next
    case (XUnits units)
    with Cons.prems entry obtain t where t: "target_lang_of lang_pair = Some t"
      and rest: "load_xliff_files dir files
           (self\<lparr>xliff_translations := fold (process_unit t) units (xliff_translations self)\<rparr>)
         = Inr s"
      by (auto split: option.splits)
    from Cons.IH[OF rest] XUnits entry t show ?thesis
      by (simp add: units_in_order_def units_of_file_def fold_map comp_def)
  qed
qed

lemma load_structure_from_json_result:
  "load_structure_from_json fs s1 = Inr s2 \<Longrightarrow>
     xliff_translations s2 = xliff_translations s1 \<and> npcs s2 = npcs s1
     \<and> messages s2 = messages s1 \<and> mapper_replies s2 = mapper_replies s1"
  by (auto simp: load_structure_from_json_def then_load_def split: sum.splits)

lemma map_of_merged:
  assumes "distinct (map fst table)"
  shows "map_of (fold (\<lambda>(i, tr). AList.update i (g i tr)) table []) i
           = map_option (g i) (map_of table i)"
proof (cases "i \<in> fst ` set table")
  case True
  from map_of_fold_update_key[OF True, of g "[]"]
  obtain tr where "(i, tr) \<in> set table"
    and "map_of (fold (\<lambda>(i, tr). AList.update i (g i tr)) table []) i = Some (g i tr)"
    by blast
  with assms show ?thesis by simp
next
  case False
  then have "map_of table i = None"
    by (simp add: map_of_eq_None_iff)
  with map_of_fold_update_other[OF False, of g "[]"] show ?thesis
    by simp
qed

lemma seen_units_counted:
  "tu \<in> set (seen_units ty i tus) \<Longrightarrow>
     tu \<in> set tus \<and> source_text (snd tu) \<noteq> None \<and> target_text (snd tu) \<noteq> None"
  by (auto simp: seen_units_def unit_key_def split: if_splits)

lemma entry_of_seen:
  assumes nonempty: "seen_units ty i tus \<noteq> []"
    and targets: "\<forall>tu\<in>set tus. fst tu \<noteq> ''fr''"
  defines "entry \<equiv> fold (\<lambda>tu. AList.update (fst tu) (the (target_text (snd tu))))
                      (seen_units ty i tus)
                      [(''fr'', clean_source_text (the (source_text (snd (hd (seen_units ty i tus))))))]"
  shows "get_fr entry = first_source (seen_units ty i tus)"
    and "lang \<noteq> ''fr'' \<Longrightarrow> map_of entry lang = last_target lang (seen_units ty i tus)"
proof -
  let ?seen = "seen_units ty i tus"
  have no_fr: "filter (\<lambda>tu. fst tu = ''fr'') ?seen = []"
    using targets seen_units_counted by (fastforce simp: filter_empty_conv)
  from nonempty have "hd ?seen \<in> set ?seen"
    by simp
  then have "source_text (snd (hd ?seen)) \<noteq> None"
    using seen_units_counted by blast
  with nonempty have first: "first_source ?seen = clean_source_text (the (source_text (snd (hd ?seen))))"
    by (cases ?seen) (auto simp: first_source_def)
  show "get_fr entry = first_source ?seen"
    by (simp add: get_fr_def entry_def map_of_fold_targets no_fr first)
  show "map_of entry lang = last_target lang ?seen" if "lang \<noteq> ''fr''"
  proof (cases "filter (\<lambda>tu. fst tu = lang) ?seen")
    case Nil
    with that show ?thesis
      by (simp add: entry_def map_of_fold_targets last_target_def)
  next
    case (Cons tu rest)
    then have "last (tu # rest) \<in> set ?seen"
      by (metis filter_is_subset last_in_set list.distinct(1) subsetD)
    then have "target_text (snd (last (tu # rest))) \<noteq> None"
      using seen_units_counted by blast
    with Cons that show ?thesis
      by (auto simp: entry_def map_of_fold_targets last_target_def)
  qed
qed

lemma tables_after_loading:
  assumes loaded: "load_xliff_translations fs (init_mapper folder True folder' files) = Inr s1"
    and structural: "load_structure_from_json fs s1 = Inr s2"
  shows "npc_names (xliff_translations s2)
           = fold (table_step ''name'') (units_in_order (xliff_dir fs) files) []"
    and "xl_messages (xliff_translations s2)
           = fold (table_step ''message'') (units_in_order (xliff_dir fs) files) []"
    and "xl_replies (xliff_translations s2)
           = fold (table_step ''reply'') (units_in_order (xliff_dir fs) files) []"
    and "npcs s2 = []" and "messages s2 = []" and "mapper_replies s2 = []"
  using load_xliff_files_result[OF loaded[unfolded load_xliff_translations_def]]
    load_structure_from_json_result[OF structural]
  by (simp_all add: fold_process_unit_tables init_mapper_def)

lemma merged_entry:
  assumes targets: "\<forall>tu\<in>set tus. fst tu \<noteq> ''fr''"
  shows "map_of (fold (\<lambda>(i, tr). AList.update i (g i tr)) (fold (table_step ty) tus []) []) i
     = (if seen_units ty i tus = [] then None
        else Some (g i (fold (\<lambda>tu. AList.update (fst tu) (the (target_text (snd tu))))
                      (seen_units ty i tus)
                      [(''fr'', clean_source_text
                                 (the (source_text (snd (hd (seen_units ty i tus))))))])))"
proof -
  have "distinct (map fst (fold (table_step ty) tus []))"
    by (rule distinct_fold_table_step) simp
  then show ?thesis
    by (simp add: map_of_merged map_of_fold_table_step)
qed

lemma merged_records:
  assumes loaded: "load_xliff_translations fs (init_mapper folder True folder' files) = Inr s1"
    and structural: "load_structure_from_json fs s1 = Inr s2"
    and targets: "\<forall>tu\<in>set (units_in_order (xliff_dir fs) files). fst tu \<noteq> ''fr''"
  shows "map_of (messages (merge_xliff_with_structure s2)) i =
           (if seen_units ''message'' i (units_in_order (xliff_dir fs) files) = [] then None
            else Some
              \<lparr> message_id = i,
                text_fr = first_source (seen_units ''message'' i (units_in_order (xliff_dir fs) files)),
                text_en = last_target ''en'' (seen_units ''message'' i (units_in_order (xliff_dir fs) files)),
                text_es = last_target ''es'' (seen_units ''message'' i (units_in_order (xliff_dir fs) files)),
                text_pt = last_target ''pt'' (seen_units ''message'' i (units_in_order (xliff_dir fs) files)),
                message_context = None, replies = [] \<rparr>)
       \<and> map_of (npcs (merge_xliff_with_structure s2)) i =
           (if seen_units ''name'' i (units_in_order (xliff_dir fs) files) = [] then None
            else Some
              \<lparr> npc_id = i,
                name_fr = first_source (seen_units ''name'' i (units_in_order (xliff_dir fs) files)),
                name_en = last_target ''en'' (seen_units ''name'' i (units_in_order (xliff_dir fs) files)),
                name_es = last_target ''es'' (seen_units ''name'' i (units_in_order (xliff_dir fs) files)),
                name_pt = last_target ''pt'' (seen_units ''name'' i (units_in_order (xliff_dir fs) files)),
                npc_context = None, dialogs = [], genders = [], img_urls = [] \<rparr>)
       \<and> map_option (\<lambda>r. (reply_text_fr r, reply_text_en r, reply_text_es r, reply_text_pt r))
           (map_of (mapper_replies (merge_xliff_with_structure s2)) i) =
           (if seen_units ''reply'' i (units_in_order (xliff_dir fs) files) = [] then None
            else Some
              (first_source (seen_units ''reply'' i (units_in_order (xliff_dir fs) files)),
               last_target ''en'' (seen_units ''reply'' i (units_in_order (xliff_dir fs) files)),
               last_target ''es'' (seen_units ''reply'' i (units_in_order (xliff_dir fs) files)),
               last_target ''pt'' (seen_units ''reply'' i (units_in_order (xliff_dir fs) files))))"
proof -
  let ?tus = "units_in_order (xliff_dir fs) files"
  note tables = tables_after_loading[OF loaded structural]
  have message: "map_of (messages (merge_xliff_with_structure s2)) i =
           (if seen_units ''message'' i ?tus = [] then None
            else Some
              \<lparr> message_id = i,
                text_fr = first_source (seen_units ''message'' i ?tus),
                text_en = last_target ''en'' (seen_units ''message'' i ?tus),
                text_es = last_target ''es'' (seen_units ''message'' i ?tus),
                text_pt = last_target ''pt'' (seen_units ''message'' i ?tus),
                message_context = None, replies = [] \<rparr>)"
    using entry_of_seen[of "''message''" i ?tus, OF _ targets]
    by (simp add: merge_xliff_with_structure_def tables merged_entry[OF targets]
          message_of_translations_def)
  have npc: "map_of (npcs (merge_xliff_with_structure s2)) i =
           (if seen_units ''name'' i ?tus = [] then None
            else Some
              \<lparr> npc_id = i,
                name_fr = first_source (seen_units ''name'' i ?tus),
                name_en = last_target ''en'' (seen_units ''name'' i ?tus),
                name_es = last_target ''es'' (seen_units ''name'' i ?tus),
                name_pt = last_target ''pt'' (seen_units ''name'' i ?tus),
                npc_context = None, dialogs = [], genders = [], img_urls = [] \<rparr>)"
    using entry_of_seen[of "''name''" i ?tus, OF _ targets]
    by (simp add: merge_xliff_with_structure_def tables merged_entry[OF targets]
          npc_of_translations_def)
  have reply: "map_option (\<lambda>r. (reply_text_fr r, reply_text_en r, reply_text_es r, reply_text_pt r))
           (map_of (mapper_replies (merge_xliff_with_structure s2)) i) =
           (if seen_units ''reply'' i ?tus = [] then None
            else Some
              (first_source (seen_units ''reply'' i ?tus),
               last_target ''en'' (seen_units ''reply'' i ?tus),
               last_target ''es'' (seen_units ''reply'' i ?tus),
               last_target ''pt'' (seen_units ''reply'' i ?tus)))"
    using entry_of_seen[of "''reply''" i ?tus, OF _ targets]
    by (simp add: merge_xliff_with_structure_def tables merged_entry[OF targets]
          reply_of_translations_def)
  from message npc reply show ?thesis
    by blast
qed

lemma target_lang_of_pairs:
  "target_lang_of ''fr-en'' = Some ''en''" "target_lang_of ''fr-es'' = Some ''es''"
  "target_lang_of ''fr-pt'' = Some ''pt''"
  by code_simp+

lemma load_xliff_files_returns:
  "fst ` set files \<subseteq> {''fr-en'', ''fr-es'', ''fr-pt''} \<Longrightarrow>
     \<exists>s. load_xliff_files dir files self = Inr s"
proof (induction files arbitrary: self)
  case Nil
  show ?case by simp
next
  case (Cons entry files)
  obtain lang_pair filename where entry: "entry = (lang_pair, filename)"
    by (cases entry)
  with Cons.prems have "lang_pair \<in> {''fr-en'', ''fr-es'', ''fr-pt''}"
    by simp
  then have "lang_pair = ''fr-en'' \<or> lang_pair = ''fr-es'' \<or> lang_pair = ''fr-pt''"
    by blast
  then obtain t where t: "target_lang_of lang_pair = Some t"
    using target_lang_of_pairs by metis
  from Cons.prems have rest: "fst ` set files \<subseteq> {''fr-en'', ''fr-es'', ''fr-pt''}"
    by simp
  show ?case
    using Cons.IH[OF rest] entry t by (cases "dir filename") simp_all
qed

lemma units_of_file_target:
  assumes "fst entry \<in> {''fr-en'', ''fr-es'', ''fr-pt''}" "tu \<in> set (units_of_file dir entry)"
  shows "fst tu \<noteq> ''fr''"
proof -
  from assms(1) have "fst entry = ''fr-en'' \<or> fst entry = ''fr-es'' \<or> fst entry = ''fr-pt''"
    by blast
  then have "target_lang_of (fst entry) = Some ''en'' \<or> target_lang_of (fst entry) = Some ''es''
      \<or> target_lang_of (fst entry) = Some ''pt''"
    using target_lang_of_pairs by metis
  moreover have "''en'' \<noteq> ''fr''" "''es'' \<noteq> ''fr''" "''pt'' \<noteq> ''fr''"
    by simp_all
  ultimately show ?thesis
    using assms(2) by (cases "dir (snd entry)") (auto simp: units_of_file_def)
qed

lemma units_in_order_targets:
  assumes "fst ` set files \<subseteq> {''fr-en'', ''fr-es'', ''fr-pt''}"
  shows "\<forall>tu\<in>set (units_in_order dir files). fst tu \<noteq> ''fr''"
proof
  fix tu
  assume "tu \<in> set (units_in_order dir files)"
  then obtain entry where "entry \<in> set files" "tu \<in> set (units_of_file dir entry)"
    by (auto simp: units_in_order_def)
  moreover from this(1) assms have "fst entry \<in> {''fr-en'', ''fr-es'', ''fr-pt''}"
    by blast
  ultimately show "fst tu \<noteq> ''fr''"
    using units_of_file_target by blast
qed

text \<open>
  Claim C5. In translation-file mode with the language pairs fr-en, fr-es and fr-pt the
  translations always load, and when the structure loads as well, every NPC, message and
  reply after the merge stands for one entity seen in the files that were read: its
  French text is the cleaned source text of the first unit seen for that entity, and
  its English, Spanish and Portuguese texts are the target texts of the last unit for
  that entity in a file with that target language, or \<^verbatim>\<open>None\<close> when no such file holds
  the entity.
\<close>

theorem xliff_merge_correct:
  assumes pairs: "fst ` set files \<subseteq> {''fr-en'', ''fr-es'', ''fr-pt''}"
  shows "\<exists>s1. load_xliff_translations fs (init_mapper folder True folder' files) = Inr s1
     \<and> (\<forall>s2 i. load_structure_from_json fs s1 = Inr s2 \<longrightarrow>
          map_of (messages (merge_xliff_with_structure s2)) i =
            (if seen_units ''message'' i (units_in_order (xliff_dir fs) files) = [] then None
             else Some
               \<lparr> message_id = i,
                 text_fr = first_source (seen_units ''message'' i (units_in_order (xliff_dir fs) files)),
                 text_en = last_target ''en'' (seen_units ''message'' i (units_in_order (xliff_dir fs) files)),
                 text_es = last_target ''es'' (seen_units ''message'' i (units_in_order (xliff_dir fs) files)),
                 text_pt = last_target ''pt'' (seen_units ''message'' i (units_in_order (xliff_dir fs) files)),
                 message_context = None, replies = [] \<rparr>)
        \<and> map_of (npcs (merge_xliff_with_structure s2)) i =
            (if seen_units ''name'' i (units_in_order (xliff_dir fs) files) = [] then None
             else Some
               \<lparr> npc_id = i,
                 name_fr = first_source (seen_units ''name'' i (units_in_order (xliff_dir fs) files)),
                 name_en = last_target ''en'' (seen_units ''name'' i (units_in_order (xliff_dir fs) files)),
                 name_es = last_target ''es'' (seen_units ''name'' i (units_in_order (xliff_dir fs) files)),
                 name_pt = last_target ''pt'' (seen_units ''name'' i (units_in_order (xliff_dir fs) files)),
                 npc_context = None, dialogs = [], genders = [], img_urls = [] \<rparr>)
        \<and> map_option (\<lambda>r. (reply_text_fr r, reply_text_en r, reply_text_es r, reply_text_pt r))
            (map_of (mapper_replies (merge_xliff_with_structure s2)) i) =
            (if seen_units ''reply'' i (units_in_order (xliff_dir fs) files) = [] then None
             else Some
               (first_source (seen_units ''reply'' i (units_in_order (xliff_dir fs) files)),
                last_target ''en'' (seen_units ''reply'' i (units_in_order (xliff_dir fs) files)),
                last_target ''es'' (seen_units ''reply'' i (units_in_order (xliff_dir fs) files)),
                last_target ''pt'' (seen_units ''reply'' i (units_in_order (xliff_dir fs) files)))))"
proof -
  from load_xliff_files_returns[OF pairs]
  obtain s1 where s1: "load_xliff_translations fs (init_mapper folder True folder' files) = Inr s1"
    by (auto simp: load_xliff_translations_def init_mapper_def)
  note targets = units_in_order_targets[OF pairs, of "xliff_dir fs"]
  from s1 merged_records[OF s1 _ targets] show ?thesis
    by blast
qed

text \<open>
  The unit \<^verbatim>\<open>npc.42.message\<close> with source "Bonjour" and the targets "Hello" in the English
  file and "Hola" in the Spanish file gives message 42 the texts "Bonjour", "Hello",
  "Hola" and no Portuguese text, also through the whole of \<^verbatim>\<open>load_data\<close>.
\<close>

theorem xliff_merge_correct_witness:
  "(\<exists>s1 s2. load_xliff_translations bonjour_folder (init_mapper ''data'' True ''xliff'' bonjour_files)
              = Inr s1
          \<and> load_structure_from_json bonjour_folder s1 = Inr s2
          \<and> map_of (messages (merge_xliff_with_structure s2)) 42
              = Some \<lparr> message_id = 42, text_fr = ''Bonjour'', text_en = Some ''Hello'',
                       text_es = Some ''Hola'', text_pt = None, message_context = None,
                       replies = [] \<rparr>
          \<and> map_option (\<lambda>r. (reply_text_fr r, reply_text_en r, reply_text_es r, reply_text_pt r))
               (map_of (mapper_replies (merge_xliff_with_structure s2)) 200)
              = Some (''Oui'', Some ''Yes'', None, None))
   \<and> (case load_data bonjour_folder (init_mapper ''data'' True ''xliff'' bonjour_files) of
         Inl e \<Rightarrow> None
       | Inr s \<Rightarrow> map_option (\<lambda>m. (text_fr m, text_en m, text_es m, text_pt m))
                    (map_of (messages s) 42))
       = Some (''Bonjour'', Some ''Hello'', Some ''Hola'', None)"
proof -
  let ?fresh = "init_mapper ''data'' True ''xliff'' bonjour_files"
  let ?tus = "units_in_order (xliff_dir bonjour_folder) bonjour_files"
  have pairs: "fst ` set bonjour_files \<subseteq> {''fr-en'', ''fr-es'', ''fr-pt''}"
    by (simp add: bonjour_files_def)
  have "(case then_load (load_xliff_translations bonjour_folder ?fresh)
                (load_structure_from_json bonjour_folder) of
           Inl e \<Rightarrow> False | Inr s \<Rightarrow> True)"
    by code_simp
  then obtain s1 s2 where s1: "load_xliff_translations bonjour_folder ?fresh = Inr s1"
    and s2: "load_structure_from_json bonjour_folder s1 = Inr s2"
    by (auto simp: then_load_def split: sum.splits)
  have seen: "seen_units ''message'' 42 ?tus \<noteq> []" "seen_units ''reply'' 200 ?tus \<noteq> []"
    by code_simp+
  have texts:
    "first_source (seen_units ''message'' 42 ?tus) = ''Bonjour''"
    "last_target ''en'' (seen_units ''message'' 42 ?tus) = Some ''Hello''"
    "last_target ''es'' (seen_units ''message'' 42 ?tus) = Some ''Hola''"
    "last_target ''pt'' (seen_units ''message'' 42 ?tus) = None"
    "first_source (seen_units ''reply'' 200 ?tus) = ''Oui''"
    "last_target ''en'' (seen_units ''reply'' 200 ?tus) = Some ''Yes''"
    "last_target ''es'' (seen_units ''reply'' 200 ?tus) = None"
    "last_target ''pt'' (seen_units ''reply'' 200 ?tus) = None"
    by code_simp+
  from xliff_merge_correct[OF pairs, of bonjour_folder "''data''" "''xliff''"] s1 s2
  have merged: "map_of (messages (merge_xliff_with_structure s2)) i =
            (if seen_units ''message'' i ?tus = [] then None
             else Some
               \<lparr> message_id = i,
                 text_fr = first_source (seen_units ''message'' i ?tus),
                 text_en = last_target ''en'' (seen_units ''message'' i ?tus),
                 text_es = last_target ''es'' (seen_units ''message'' i ?tus),
                 text_pt = last_target ''pt'' (seen_units ''message'' i ?tus),
                 message_context = None, replies = [] \<rparr>)"
    and merged_reply:
      "map_option (\<lambda>r. (reply_text_fr r, reply_text_en r, reply_text_es r, reply_text_pt r))
            (map_of (mapper_replies (merge_xliff_with_structure s2)) i) =
            (if seen_units ''reply'' i ?tus = [] then None
             else Some
               (first_source (seen_units ''reply'' i ?tus),
                last_target ''en'' (seen_units ''reply'' i ?tus),
                last_target ''es'' (seen_units ''reply'' i ?tus),
                last_target ''pt'' (seen_units ''reply'' i ?tus)))" for i
    by auto
  have message: "map_of (messages (merge_xliff_with_structure s2)) 42
              = Some \<lparr> message_id = 42, text_fr = ''Bonjour'', text_en = Some ''Hello'',
                       text_es = Some ''Hola'', text_pt = None, message_context = None,
                       replies = [] \<rparr>"
    using merged[of 42] seen texts by simp
  have reply: "map_option (\<lambda>r. (reply_text_fr r, reply_text_en r, reply_text_es r, reply_text_pt r))
               (map_of (mapper_replies (merge_xliff_with_structure s2)) 200)
              = Some (''Oui'', Some ''Yes'', None, None)"
    using merged_reply[of 200] seen texts by simp
  have whole: "(case load_data bonjour_folder ?fresh of
         Inl e \<Rightarrow> None
       | Inr s \<Rightarrow> map_option (\<lambda>m. (text_fr m, text_en m, text_es m, text_pt m))
                    (map_of (messages s) 42))
       = Some (''Bonjour'', Some ''Hello'', Some ''Hola'', None)"
    by code_simp
  from s1 s2 message reply whole show ?thesis
    by blast
qed

end
